theory Spec2Isabelle
  imports Complex_Main "HOL-Library.Log_Nat"
begin

section \<open>Data model (newsletter/models.py)\<close>

text \<open>
  The rows of the three tables the campaign service touches. Only the columns that
  \<^verbatim>\<open>newsletter/services.py\<close> and the rate methods of \<^verbatim>\<open>EmailCampaign\<close> read or
  write are kept. The \<^verbatim>\<open>CharField\<close> columns with choices (\<^verbatim>\<open>status\<close>,
  \<^verbatim>\<open>activity_type\<close>) are strings, as in the source, which compares them with string
  literals. The columns \<^verbatim>\<open>id\<close> and \<^verbatim>\<open>status\<close> exist in two models and carry a prefix
  here (\<open>s_\<close> for the subscriber, \<open>c_\<close> for the campaign), as do the two
  foreign keys of an activity (\<open>a_\<close>).

  The primary key of a \<^verbatim>\<open>NewsletterSubscriber\<close> instance is \<open>None\<close> until the
  instance is saved; every row of the table has \<open>Some\<close> key. Many-to-many relations
  are lists of the related keys.
\<close>

record newsletter_subscriber =
  s_id :: "nat option"
  email :: string
  first_name :: string
  last_name :: string
  s_status :: string
  subscription_interests :: "nat list"
  total_emails_sent :: nat
  total_emails_opened :: nat
  total_links_clicked :: nat
  is_verified :: bool

record email_campaign =
  c_id :: nat
  name :: string
  subject :: string
  send_to_all :: bool
  target_categories :: "nat list"
  target_subscribers :: "nat list"
  c_status :: string
  sent_at :: "nat option"
  total_recipients :: nat
  total_sent :: nat
  total_delivered :: nat
  total_bounced :: nat
  total_opened :: nat
  total_clicked :: nat
  total_unsubscribed :: nat
  total_spam_complaints :: nat

record newsletter_activity =
  a_subscriber :: "nat option"
  a_campaign :: "nat option"
  activity_type :: string
  description :: string
  email_subject :: string

text \<open>
  The database: \<^verbatim>\<open>NewsletterSubscriber.objects\<close>, \<^verbatim>\<open>EmailCampaign.objects\<close> and
  \<^verbatim>\<open>NewsletterActivity.objects\<close>, each a list of rows.
\<close>

record database =
  subscribers :: "newsletter_subscriber list"
  campaigns :: "email_campaign list"
  activities :: "newsletter_activity list"

section \<open>Audience resolution (NewsletterService._get_target_subscribers)\<close>

text \<open>
  \<^verbatim>\<open>NewsletterSubscriber.objects.filter(status='active', is_verified=True)\<close>.
\<close>

definition base_eligible :: "newsletter_subscriber \<Rightarrow> bool" where
  "base_eligible s \<longleftrightarrow> s_status s = ''active'' \<and> is_verified s"

text \<open>
  \<^verbatim>\<open>subscription_interests__in=campaign.target_categories.all()\<close> followed by
  \<^verbatim>\<open>distinct()\<close>: the subscriber has at least one interest among the target
  categories, and is listed once.
\<close>

definition interested_in :: "nat list \<Rightarrow> newsletter_subscriber \<Rightarrow> bool" where
  "interested_in categories s \<longleftrightarrow> list_ex (\<lambda>c. c \<in> set categories) (subscription_interests s)"

text \<open>
  \<^verbatim>\<open>id__in=campaign.target_subscribers.values_list('id', flat=True)\<close>.
\<close>

definition id_in :: "nat list \<Rightarrow> newsletter_subscriber \<Rightarrow> bool" where
  "id_in ids s \<longleftrightarrow> (case s_id s of None \<Rightarrow> False | Some i \<Rightarrow> i \<in> set ids)"

text \<open>
  The two \<^verbatim>\<open>if\<close> statements under \<^verbatim>\<open>if not campaign.send_to_all\<close> are
  independent (the second is not an \<^verbatim>\<open>elif\<close>); \<^verbatim>\<open>exists()\<close> on a relation is
  "the list of related keys is not empty".
\<close>

definition get_target_subscribers :: "database \<Rightarrow> email_campaign \<Rightarrow> newsletter_subscriber list" where
  "get_target_subscribers db campaign =
     (let subs0 = filter base_eligible (subscribers db);
          subs1 = (if \<not> send_to_all campaign \<and> target_categories campaign \<noteq> []
                   then filter (interested_in (target_categories campaign)) subs0
                   else subs0);
          subs2 = (if \<not> send_to_all campaign \<and> target_subscribers campaign \<noteq> []
                   then filter (id_in (target_subscribers campaign)) subs1
                   else subs1)
      in subs2)"

section \<open>Exceptions, collaborators and result dictionaries\<close>

text \<open>
  The exceptions the service sees: \<^verbatim>\<open>EmailCampaign.DoesNotExist\<close> from
  \<^verbatim>\<open>objects.get\<close>, the two \<^verbatim>\<open>ValueError\<close>s that \<^verbatim>\<open>send_campaign\<close> raises itself,
  and whatever a collaborator (URL reversing, the mail transport, the database) raises,
  kept with its \<^verbatim>\<open>str()\<close>.
\<close>

datatype exn = DoesNotExist | ValueError string | CollaboratorError string

fun str_exn :: "exn \<Rightarrow> string" where
  "str_exn DoesNotExist = ''EmailCampaign matching query does not exist.''"
| "str_exn (ValueError msg) = msg"
| "str_exn (CollaboratorError msg) = msg"

text \<open>
  The collaborators are outside the repository. Each call that can raise is a function of
  the environment that says whether it raises (\<open>Some\<close> message) or returns: rendering
  (\<^verbatim>\<open>_render_email_content\<close>, which reverses the unsubscribe URL), \<^verbatim>\<open>email.send()\<close>,
  \<^verbatim>\<open>NewsletterActivity.objects.create\<close>, \<^verbatim>\<open>subscriber.save()\<close> and
  \<^verbatim>\<open>campaign.save()\<close>. \<open>now\<close> is \<^verbatim>\<open>timezone.now()\<close>.
\<close>

record environment =
  render_error :: "email_campaign \<Rightarrow> newsletter_subscriber \<Rightarrow> string option"
  send_error :: "email_campaign \<Rightarrow> newsletter_subscriber \<Rightarrow> string option"
  create_error :: "newsletter_activity \<Rightarrow> string option"
  subscriber_save_error :: "newsletter_subscriber \<Rightarrow> string option"
  campaign_save_error :: "email_campaign \<Rightarrow> string option"
  now :: nat

text \<open>A Python value of a result dictionary, and the dictionary in insertion order.\<close>

datatype py_value = PyBool bool | PyStr string | PyInt nat

type_synonym result = "(string \<times> py_value) list"

text \<open>\<^verbatim>\<open>str(n)\<close> of a non-negative integer, as the f-strings format it.\<close>

fun str_nat :: "nat \<Rightarrow> string" where
  "str_nat n = (if n < 10 then [char_of (48 + n)]
                else str_nat (n div 10) @ [char_of (48 + n mod 10)])"

declare str_nat.simps [simp del]

section \<open>Persistence\<close>

text \<open>\<^verbatim>\<open>EmailCampaign.objects.get(id=campaign_id)\<close>.\<close>

definition get_campaign :: "database \<Rightarrow> nat \<Rightarrow> exn + email_campaign" where
  "get_campaign db campaign_id =
     (case find (\<lambda>c. c_id c = campaign_id) (campaigns db) of
        None \<Rightarrow> Inl DoesNotExist
      | Some c \<Rightarrow> Inr c)"

text \<open>
  \<^verbatim>\<open>campaign.save()\<close> and \<^verbatim>\<open>subscriber.save()\<close> of a loaded instance: the row with the
  instance's key takes the instance's values.
\<close>

definition save_campaign :: "environment \<Rightarrow> email_campaign \<Rightarrow> database \<Rightarrow> exn + database" where
  "save_campaign env c db =
     (case campaign_save_error env c of
        Some msg \<Rightarrow> Inl (CollaboratorError msg)
      | None \<Rightarrow> Inr (db\<lparr>campaigns := map (\<lambda>r. if c_id r = c_id c then c else r) (campaigns db)\<rparr>))"

definition save_subscriber :: "environment \<Rightarrow> newsletter_subscriber \<Rightarrow> database \<Rightarrow> exn + database" where
  "save_subscriber env s db =
     (case subscriber_save_error env s of
        Some msg \<Rightarrow> Inl (CollaboratorError msg)
      | None \<Rightarrow> Inr (db\<lparr>subscribers := map (\<lambda>r. if s_id r = s_id s then s else r) (subscribers db)\<rparr>))"

section \<open>Delivery to one recipient (NewsletterService._send_email_to_subscriber)\<close>

text \<open>The row that \<^verbatim>\<open>NewsletterActivity.objects.create(...)\<close> is called with.\<close>

definition email_sent_activity :: "email_campaign \<Rightarrow> newsletter_subscriber \<Rightarrow> newsletter_activity" where
  "email_sent_activity c s =
     \<lparr>a_subscriber = s_id s, a_campaign = Some (c_id c), activity_type = ''email_sent'',
      description = ''Email sent for campaign: '' @ name c, email_subject = subject c\<rparr>"

text \<open>
  Render, send, then log the activity; the \<^verbatim>\<open>except\<close> clause logs and re-raises, so
  the first failing step is the outcome and the later steps do not run.
\<close>

definition send_email_to_subscriber ::
    "environment \<Rightarrow> email_campaign \<Rightarrow> newsletter_subscriber \<Rightarrow> database \<Rightarrow> exn + database" where
  "send_email_to_subscriber env c s db =
     (case render_error env c s of
        Some msg \<Rightarrow> Inl (CollaboratorError msg)
      | None \<Rightarrow>
         (case send_error env c s of
            Some msg \<Rightarrow> Inl (CollaboratorError msg)
          | None \<Rightarrow>
             (case create_error env (email_sent_activity c s) of
                Some msg \<Rightarrow> Inl (CollaboratorError msg)
              | None \<Rightarrow> Inr (db\<lparr>activities := activities db @ [email_sent_activity c s]\<rparr>))))"

text \<open>The delivery to \<open>s\<close> raises nothing.\<close>

definition delivered :: "environment \<Rightarrow> email_campaign \<Rightarrow> newsletter_subscriber \<Rightarrow> bool" where
  "delivered env c s \<longleftrightarrow>
     render_error env c s = None \<and> send_error env c s = None \<and>
     create_error env (email_sent_activity c s) = None"

section \<open>Sending a campaign (NewsletterService.send_campaign)\<close>

text \<open>
  The \<^verbatim>\<open>for subscriber in subscribers\<close> loop with its inner \<^verbatim>\<open>try\<close>: the state is
  \<^verbatim>\<open>sent_count\<close> and the database. An exception of the delivery, or of
  \<^verbatim>\<open>subscriber.save()\<close> after \<^verbatim>\<open>sent_count += 1\<close>, is logged and the loop continues.
\<close>

fun send_loop ::
    "environment \<Rightarrow> email_campaign \<Rightarrow> newsletter_subscriber list \<Rightarrow> nat \<times> database \<Rightarrow> nat \<times> database" where
  "send_loop env c [] st = st"
| "send_loop env c (s # rest) (sent_count, db) =
     (case send_email_to_subscriber env c s db of
        Inl e \<Rightarrow> send_loop env c rest (sent_count, db)
      | Inr db1 \<Rightarrow>
         (case save_subscriber env (s\<lparr>total_emails_sent := total_emails_sent s + 1\<rparr>) db1 of
            Inl e \<Rightarrow> send_loop env c rest (sent_count + 1, db1)
          | Inr db2 \<Rightarrow> send_loop env c rest (sent_count + 1, db2)))"

definition not_in_draft_status :: "email_campaign \<Rightarrow> exn" where
  "not_in_draft_status c = ValueError (''Campaign '' @ name c @ '' is not in draft status'')"

definition no_subscribers_found :: exn where
  "no_subscribers_found = ValueError ''No subscribers found for this campaign''"

text \<open>
  The body of the outer \<^verbatim>\<open>try\<close>: the exception that leaves it, or the dictionary it
  returns, with the database as it is at that moment (nothing is rolled back: the source
  opens no transaction). The queryset is lazy: \<^verbatim>\<open>exists()\<close> and \<^verbatim>\<open>count()\<close> run
  before the first \<^verbatim>\<open>campaign.save()\<close>, the iteration after it.
\<close>

definition send_campaign_try :: "environment \<Rightarrow> database \<Rightarrow> nat \<Rightarrow> (exn + result) \<times> database" where
  "send_campaign_try env db campaign_id =
     (case get_campaign db campaign_id of
        Inl e \<Rightarrow> (Inl e, db)
      | Inr c \<Rightarrow>
         if c_status c \<noteq> ''draft'' then (Inl (not_in_draft_status c), db)
         else if get_target_subscribers db c = [] then (Inl no_subscribers_found, db)
         else
           (let c1 = c\<lparr>c_status := ''sending'',
                        total_recipients := length (get_target_subscribers db c)\<rparr>
            in case save_campaign env c1 db of
                 Inl e \<Rightarrow> (Inl e, db)
               | Inr db1 \<Rightarrow>
                  (let (sent_count, db2) = send_loop env c1 (get_target_subscribers db1 c1) (0, db1);
                       c2 = c1\<lparr>c_status := ''sent'', total_sent := sent_count,
                                 sent_at := Some (now env)\<rparr>
                   in case save_campaign env c2 db2 of
                        Inl e \<Rightarrow> (Inl e, db2)
                      | Inr db3 \<Rightarrow>
                         (Inr [(''success'', PyBool True),
                               (''message'', PyStr (''Campaign sent to '' @ str_nat sent_count @ '' subscribers'')),
                               (''sent_count'', PyInt sent_count),
                               (''total_recipients'', PyInt (total_recipients c2))], db3))))"

text \<open>The two \<^verbatim>\<open>except\<close> clauses, in the source's order.\<close>

fun failure_result :: "exn \<Rightarrow> result" where
  "failure_result DoesNotExist = [(''success'', PyBool False), (''message'', PyStr ''Campaign not found'')]"
| "failure_result e = [(''success'', PyBool False), (''message'', PyStr (str_exn e))]"

definition send_campaign :: "environment \<Rightarrow> database \<Rightarrow> nat \<Rightarrow> result \<times> database" where
  "send_campaign env db campaign_id =
     (case send_campaign_try env db campaign_id of
        (Inl e, db') \<Rightarrow> (failure_result e, db')
      | (Inr r, db') \<Rightarrow> (r, db'))"

text \<open>
  The part of the body after its three checks, with the audience resolved once: what
  \<^verbatim>\<open>send_campaign\<close> does for a draft campaign with a non-empty audience
  (lemma \<open>send_campaign_try_draft\<close> below).
\<close>

definition dispatch :: "environment \<Rightarrow> database \<Rightarrow> email_campaign \<Rightarrow> (exn + result) \<times> database" where
  "dispatch env db c =
     (let c1 = c\<lparr>c_status := ''sending'', total_recipients := length (get_target_subscribers db c)\<rparr>
      in case save_campaign env c1 db of
           Inl e \<Rightarrow> (Inl e, db)
         | Inr db1 \<Rightarrow>
            (let (k, db2) = send_loop env c1 (get_target_subscribers db c) (0, db1);
                 c2 = c1\<lparr>c_status := ''sent'', total_sent := k, sent_at := Some (now env)\<rparr>
             in case save_campaign env c2 db2 of
                  Inl e \<Rightarrow> (Inl e, db2)
                | Inr db3 \<Rightarrow>
                   (Inr [(''success'', PyBool True),
                         (''message'', PyStr (''Campaign sent to '' @ str_nat k @ '' subscribers'')),
                         (''sent_count'', PyInt k),
                         (''total_recipients'', PyInt (total_recipients c2))], db3)))"

section \<open>Test sends (NewsletterService.send_test_email)\<close>

text \<open>
  \<^verbatim>\<open>NewsletterSubscriber(email=test_email, first_name="Test", last_name="User")\<close>: an
  instance that is never saved, with the model's defaults in the other fields.
\<close>

definition test_subscriber :: "string \<Rightarrow> newsletter_subscriber" where
  "test_subscriber test_email =
     \<lparr>s_id = None, email = test_email, first_name = ''Test'', last_name = ''User'',
      s_status = ''active'', subscription_interests = [], total_emails_sent = 0,
      total_emails_opened = 0, total_links_clicked = 0, is_verified = False\<rparr>"

definition send_test_email_try ::
    "environment \<Rightarrow> database \<Rightarrow> nat \<Rightarrow> string \<Rightarrow> (exn + result) \<times> database" where
  "send_test_email_try env db campaign_id test_email =
     (case get_campaign db campaign_id of
        Inl e \<Rightarrow> (Inl e, db)
      | Inr c \<Rightarrow>
         (case send_email_to_subscriber env c (test_subscriber test_email) db of
            Inl e \<Rightarrow> (Inl e, db)
          | Inr db1 \<Rightarrow>
             (Inr [(''success'', PyBool True),
                   (''message'', PyStr (''Test email sent to '' @ test_email))], db1)))"

definition send_test_email :: "environment \<Rightarrow> database \<Rightarrow> nat \<Rightarrow> string \<Rightarrow> result \<times> database" where
  "send_test_email env db campaign_id test_email =
     (case send_test_email_try env db campaign_id test_email of
        (Inl e, db') \<Rightarrow> (failure_result e, db')
      | (Inr r, db') \<Rightarrow> (r, db'))"

text \<open>What the claims count: the \<^verbatim>\<open>email_sent\<close> activities of a campaign.\<close>

definition email_sent_records :: "database \<Rightarrow> nat \<Rightarrow> newsletter_activity list" where
  "email_sent_records db campaign_id =
     filter (\<lambda>a. activity_type a = ''email_sent'' \<and> a_campaign a = Some campaign_id) (activities db)"

section \<open>Derived metrics (EmailCampaign.get_open_rate and its siblings)\<close>

text \<open>
  The rate methods compute in Python floats: \<^verbatim>\<open>round((a / b) * 100, 1)\<close> with \<^verbatim>\<open>a\<close>,
  \<^verbatim>\<open>b\<close> integers. A finite binary64 number is modelled by its value, a rational, and an
  operation by the exact result rounded to the nearest binary64 number, ties to the even
  significand (IEEE 754 round-to-nearest-even). The exponent is not bounded here: the
  counters are \<^verbatim>\<open>PositiveIntegerField\<close>s (at most \<open>2 ^ 31 - 1\<close>), so every value met
  below is zero or lies between \<open>1 / 2 ^ 31\<close> and \<open>2 ^ 38\<close>, far inside the normal range
  of binary64, where neither overflow nor gradual underflow occurs.
\<close>

text \<open>Rounding to the nearest integer, a tie going to the even one.\<close>

definition rhe :: "rat \<Rightarrow> int" where
  "rhe x = (let f = \<lfloor>x\<rfloor>; r = x - of_int f
            in if r < 1/2 then f else if 1/2 < r then f + 1 else if even f then f else f + 1)"

text \<open>For \<open>x > 0\<close>, the exponent \<open>k\<close> with \<open>2 powi k \<le> x < 2 powi (k + 1)\<close>.\<close>

definition ilog2 :: "rat \<Rightarrow> int" where
  "ilog2 x = (let (p, q) = quotient_of x; k = bitlen p - bitlen q
              in if 2 powi k \<le> x then k else k - 1)"

text \<open>The binary64 number nearest to \<open>x\<close>: 53 significant bits.\<close>

definition fl :: "rat \<Rightarrow> rat" where
  "fl x = (if x = 0 then 0
           else let e = ilog2 \<bar>x\<bar> - 52; m = rhe (\<bar>x\<bar> / 2 powi e)
                in sgn x * of_int m * 2 powi e)"

text \<open>
  \<^verbatim>\<open>a / b\<close> on integers (true division, correctly rounded; the methods only divide
  under their \<^verbatim>\<open>> 0\<close> guard), \<^verbatim>\<open>x * y\<close> on floats, and \<^verbatim>\<open>round(x, ndigits)\<close> on a
  float: the decimal with \<^verbatim>\<open>ndigits\<close> fractional digits nearest to the exact value of
  \<open>x\<close> (a tie to the even digit), converted back to a float.
\<close>

definition truediv :: "nat \<Rightarrow> nat \<Rightarrow> rat" where
  "truediv a b = fl (of_nat a / of_nat b)"

definition fmul :: "rat \<Rightarrow> rat \<Rightarrow> rat" where
  "fmul x y = fl (x * y)"

definition py_round :: "rat \<Rightarrow> nat \<Rightarrow> rat" where
  "py_round x ndigits = fl (of_int (rhe (x * 10 ^ ndigits)) / 10 ^ ndigits)"

text \<open>The four methods; the \<^verbatim>\<open>return 0\<close> of the other branch is the integer 0.\<close>

definition get_open_rate :: "email_campaign \<Rightarrow> rat" where
  "get_open_rate c =
     (if total_sent c > 0 then py_round (fmul (truediv (total_opened c) (total_sent c)) 100) 1 else 0)"

definition get_click_rate :: "email_campaign \<Rightarrow> rat" where
  "get_click_rate c =
     (if total_sent c > 0 then py_round (fmul (truediv (total_clicked c) (total_sent c)) 100) 1 else 0)"

definition get_unsubscribe_rate :: "email_campaign \<Rightarrow> rat" where
  "get_unsubscribe_rate c =
     (if total_sent c > 0 then py_round (fmul (truediv (total_unsubscribed c) (total_sent c)) 100) 1 else 0)"

definition get_delivery_rate :: "email_campaign \<Rightarrow> rat" where
  "get_delivery_rate c =
     (if total_recipients c > 0
      then py_round (fmul (truediv (total_delivered c) (total_recipients c)) 100) 1 else 0)"

text \<open>
  What "the percentage \<open>x\<close> rounded to one decimal place" asks of a returned float \<open>r\<close>:
  \<open>r\<close> is the float of a decimal \<open>n / 10\<close> that is nearest to \<open>x\<close> among the decimals
  with one fractional digit (either neighbour when \<open>x\<close> lies exactly halfway).
\<close>

definition rounded_to_one_decimal :: "rat \<Rightarrow> rat \<Rightarrow> bool" where
  "rounded_to_one_decimal r x \<longleftrightarrow>
     (\<exists>n::int. \<bar>of_int n / 10 - x\<bar> \<le> 1/20 \<and> r = fl (of_int n / 10))"

section \<open>Concrete rows used by the examples\<close>

definition mk_subscriber :: "nat \<Rightarrow> string \<Rightarrow> bool \<Rightarrow> nat list \<Rightarrow> newsletter_subscriber" where
  "mk_subscriber i st v interests =
     \<lparr>s_id = Some i, email = ''reader@example.com'', first_name = ''A'', last_name = ''B'',
      s_status = st, subscription_interests = interests, total_emails_sent = 0,
      total_emails_opened = 0, total_links_clicked = 0, is_verified = v\<rparr>"

definition mk_campaign :: "nat \<Rightarrow> string \<Rightarrow> bool \<Rightarrow> nat list \<Rightarrow> nat list \<Rightarrow> email_campaign" where
  "mk_campaign i st all_flag cats subs =
     \<lparr>c_id = i, name = ''weekly'', subject = ''News'', send_to_all = all_flag,
      target_categories = cats, target_subscribers = subs, c_status = st, sent_at = None,
      total_recipients = 0, total_sent = 0, total_delivered = 0, total_bounced = 0,
      total_opened = 0, total_clicked = 0, total_unsubscribed = 0,
      total_spam_complaints = 0\<rparr>"

definition mk_db :: "newsletter_subscriber list \<Rightarrow> email_campaign list \<Rightarrow> database" where
  "mk_db ss cs = \<lparr>subscribers = ss, campaigns = cs, activities = []\<rparr>"

text \<open>An environment in which nothing fails, and one whose transport refuses subscriber 2.\<close>

definition env_ok :: environment where
  "env_ok = \<lparr>render_error = (\<lambda>c s. None), send_error = (\<lambda>c s. None),
             create_error = (\<lambda>a. None), subscriber_save_error = (\<lambda>s. None),
             campaign_save_error = (\<lambda>c. None), now = 1000\<rparr>"

definition env_refuse2 :: environment where
  "env_refuse2 = env_ok\<lparr>send_error := (\<lambda>c s. if s_id s = Some 2 then Some ''refused'' else None)\<rparr>"

text \<open>An environment in which the database refuses a row that points to an unsaved subscriber.\<close>

definition env_unsaved_rejected :: environment where
  "env_unsaved_rejected =
     env_ok\<lparr>create_error := (\<lambda>a. if a_subscriber a = None
                                    then Some ''save() prohibited: unsaved related object subscriber''
                                    else None)\<rparr>"

text \<open>An environment in which the final \<^verbatim>\<open>campaign.save()\<close> fails.\<close>

definition env_save_fails :: environment where
  "env_save_fails =
     env_ok\<lparr>campaign_save_error := (\<lambda>c. if c_status c = ''sent'' then Some ''database is locked'' else None)\<rparr>"

text \<open>Databases with one campaign, number 7, in different states.\<close>

definition db_one :: database where
  "db_one = mk_db [mk_subscriber 1 ''active'' True [5], mk_subscriber 2 ''active'' True [5],
                   mk_subscriber 3 ''unsubscribed'' True [5], mk_subscriber 4 ''active'' False [5]]
                  [mk_campaign 7 ''draft'' True [] []]"

definition db_scheduled :: database where
  "db_scheduled = mk_db [mk_subscriber 1 ''active'' True [5]] [mk_campaign 7 ''scheduled'' True [] []]"

definition db_empty_audience :: database where
  "db_empty_audience = mk_db [mk_subscriber 1 ''unsubscribed'' True [5], mk_subscriber 2 ''active'' False []]
       [mk_campaign 7 ''draft'' True [] []]"

definition db_five :: database where
  "db_five = mk_db [mk_subscriber 1 ''active'' True [], mk_subscriber 2 ''active'' True [],
                    mk_subscriber 3 ''active'' True [], mk_subscriber 4 ''active'' True [],
                    mk_subscriber 5 ''active'' True [], mk_subscriber 6 ''bounced'' True []]
                   [mk_campaign 7 ''draft'' True [] []]"

text \<open>Campaign 7 of \<open>db_five\<close> as the loop sees it: sending, with its five recipients counted.\<close>

definition sending_five :: email_campaign where
  "sending_five = (mk_campaign 7 ''draft'' True [] [])\<lparr>c_status := ''sending'', total_recipients := 5\<rparr>"

definition db_sent :: database where
  "db_sent = mk_db [mk_subscriber 1 ''active'' True []] [mk_campaign 7 ''sent'' True [] []]"

text \<open>Campaigns with given counters.\<close>

definition with_counters :: "nat \<Rightarrow> nat \<Rightarrow> nat \<Rightarrow> nat \<Rightarrow> nat \<Rightarrow> nat \<Rightarrow> email_campaign" where
  "with_counters n_recipients n_sent n_delivered n_opened n_clicked n_unsubscribed =
     (mk_campaign 7 ''sent'' True [] [])
       \<lparr>total_recipients := n_recipients, total_sent := n_sent, total_delivered := n_delivered,
        total_opened := n_opened, total_clicked := n_clicked, total_unsubscribed := n_unsubscribed\<rparr>"

lemmas example_defs = mk_db_def mk_subscriber_def mk_campaign_def env_ok_def env_refuse2_def

lemmas run_defs = send_campaign_try_def get_campaign_def save_campaign_def save_subscriber_def
  send_email_to_subscriber_def email_sent_activity_def get_target_subscribers_def base_eligible_def
  email_sent_records_def delivered_def

section \<open>Lemmas\<close>

subsection \<open>Audience resolution\<close>

lemma base_eligible_fun: "base_eligible = (\<lambda>s. s_status s = ''active'' \<and> is_verified s)"
  by (simp add: fun_eq_iff base_eligible_def)

lemma interested_in_fun:
  "interested_in cats = (\<lambda>s. \<exists>t \<in> set (subscription_interests s). t \<in> set cats)"
  by (simp add: fun_eq_iff interested_in_def list_ex_iff)

lemma id_in_fun: "id_in ids = (\<lambda>s. \<exists>i. s_id s = Some i \<and> i \<in> set ids)"
  by (simp add: fun_eq_iff id_in_def split: option.splits)

lemma set_get_target_subscribers:
  "set (get_target_subscribers db c) =
     {s \<in> set (subscribers db). base_eligible s \<and>
        (send_to_all c \<or>
          ((target_categories c = [] \<or> interested_in (target_categories c) s) \<and>
           (target_subscribers c = [] \<or> id_in (target_subscribers c) s)))}"
  by (auto simp: get_target_subscribers_def Let_def)

subsection \<open>Persistence, delivery and the loop\<close>

lemma save_campaign_frame:
  "save_campaign env c db = Inr db' \<Longrightarrow>
     subscribers db' = subscribers db \<and> activities db' = activities db \<and>
     campaigns db' = map (\<lambda>r. if c_id r = c_id c then c else r) (campaigns db)"
  by (auto simp: save_campaign_def split: option.splits)

lemma get_target_subscribers_cong:
  "subscribers db' = subscribers db \<Longrightarrow> send_to_all c' = send_to_all c \<Longrightarrow>
   target_categories c' = target_categories c \<Longrightarrow> target_subscribers c' = target_subscribers c \<Longrightarrow>
   get_target_subscribers db' c' = get_target_subscribers db c"
  by (simp add: get_target_subscribers_def Let_def)

lemma send_email_to_subscriber_delivered:
  "delivered env c s \<Longrightarrow>
     send_email_to_subscriber env c s db = Inr (db\<lparr>activities := activities db @ [email_sent_activity c s]\<rparr>)"
  by (simp add: delivered_def send_email_to_subscriber_def)

lemma send_email_to_subscriber_failed:
  "\<not> delivered env c s \<Longrightarrow> \<exists>e. send_email_to_subscriber env c s db = Inl e"
  by (auto simp: delivered_def send_email_to_subscriber_def split: option.splits)

lemma send_loop_failed_step:
  "\<not> delivered env c s \<Longrightarrow> send_loop env c (s # rest) (n, db) = send_loop env c rest (n, db)"
  using send_email_to_subscriber_failed [of env c s db] by auto

lemma save_subscriber_frame:
  "save_subscriber env s db = Inr db' \<Longrightarrow>
     campaigns db' = campaigns db \<and> activities db' = activities db"
  by (auto simp: save_subscriber_def split: option.splits)

lemma send_loop_effect:
  "send_loop env c subs (n, db) = (n', db') \<Longrightarrow>
     n' = n + length (filter (delivered env c) subs) \<and>
     campaigns db' = campaigns db \<and>
     activities db' = activities db @ map (email_sent_activity c) (filter (delivered env c) subs)"
proof (induction subs arbitrary: n db)
  case Nil
  then show ?case by simp
next
  case (Cons s rest)
  show ?case
  proof (cases "delivered env c s")
    case False
    from Cons.prems have "send_loop env c rest (n, db) = (n', db')"
      unfolding send_loop_failed_step [OF False] .
    from Cons.IH [OF this] False show ?thesis by simp
  next
    case True
    let ?db1 = "db\<lparr>activities := activities db @ [email_sent_activity c s]\<rparr>"
    let ?s1 = "s\<lparr>total_emails_sent := total_emails_sent s + 1\<rparr>"
    have step: "send_email_to_subscriber env c s db = Inr ?db1"
      using True by (rule send_email_to_subscriber_delivered)
    show ?thesis
    proof (cases "save_subscriber env ?s1 ?db1")
      case (Inl e)
      with Cons.prems step have "send_loop env c rest (n + 1, ?db1) = (n', db')" by simp
      from Cons.IH [OF this] True show ?thesis by simp
    next
      case (Inr db2)
      with Cons.prems step have "send_loop env c rest (n + 1, db2) = (n', db')" by simp
      from Cons.IH [OF this] True save_subscriber_frame [OF Inr] show ?thesis by simp
    qed
  qed
qed

lemma send_loop_append:
  "send_loop env c (xs @ ys) st = send_loop env c ys (send_loop env c xs st)"
proof (induction xs arbitrary: st)
  case Nil
  show ?case by simp
next
  case (Cons x xs)
  obtain n db where st: "st = (n, db)" by (cases st)
  show ?case unfolding st by (simp add: Cons.IH split: sum.splits)
qed

lemma find_map_replace:
  "find (\<lambda>r. c_id r = i) cs = Some c \<Longrightarrow> c_id c' = i \<Longrightarrow>
     find (\<lambda>r. c_id r = i) (map (\<lambda>r. if c_id r = i then c' else r) cs) = Some c'"
  by (induction cs) (auto split: if_splits)

lemma get_campaign_Inr:
  "get_campaign db i = Inr c \<longleftrightarrow> find (\<lambda>r. c_id r = i) (campaigns db) = Some c"
  by (simp add: get_campaign_def split: option.splits)

lemma get_campaign_id: "get_campaign db i = Inr c \<Longrightarrow> c_id c = i"
  by (auto simp: get_campaign_Inr find_Some_iff)

lemma save_campaign_Inl: "save_campaign env c db = Inl e \<Longrightarrow> \<exists>msg. e = CollaboratorError msg"
  by (auto simp: save_campaign_def split: option.splits)

text \<open>What the loop does to the subscriber rows, key by key.\<close>

lemma save_subscriber_rows:
  "save_subscriber env t db = Inr db' \<Longrightarrow>
     subscribers db' = map (\<lambda>r. if s_id r = s_id t then t else r) (subscribers db)"
  by (auto simp: save_subscriber_def split: option.splits)

lemma rows_other_key:
  "s_id t \<noteq> k \<Longrightarrow>
     filter (\<lambda>r. s_id r = k) (map (\<lambda>r. if s_id r = s_id t then t else r) rows) =
     filter (\<lambda>r. s_id r = k) rows"
  by (induction rows) auto

lemma rows_same_key:
  "filter (\<lambda>r. s_id r = s_id t) (map (\<lambda>r. if s_id r = s_id t then t else r) rows) =
     map (\<lambda>r. t) (filter (\<lambda>r. s_id r = s_id t) rows)"
  by (induction rows) auto

lemma send_email_to_subscriber_subscribers:
  "send_email_to_subscriber env c s db = Inr db' \<Longrightarrow> subscribers db' = subscribers db"
  by (auto simp: send_email_to_subscriber_def split: option.splits)

lemma send_loop_rows_other:
  assumes "send_loop env c subs (n, db) = (n', db')"
    and "\<forall>t \<in> set subs. delivered env c t \<longrightarrow> s_id t \<noteq> k"
  shows "filter (\<lambda>r. s_id r = k) (subscribers db') = filter (\<lambda>r. s_id r = k) (subscribers db)"
  using assms
proof (induction subs arbitrary: n db)
  case Nil
  then show ?case by simp
next
  case (Cons s rest)
  have rest: "\<forall>t \<in> set rest. delivered env c t \<longrightarrow> s_id t \<noteq> k" using Cons.prems(2) by simp
  show ?case
  proof (cases "delivered env c s")
    case False
    from Cons.prems(1) have "send_loop env c rest (n, db) = (n', db')"
      unfolding send_loop_failed_step [OF False] .
    from Cons.IH [OF this rest] show ?thesis .
  next
    case True
    let ?db1 = "db\<lparr>activities := activities db @ [email_sent_activity c s]\<rparr>"
    let ?s1 = "s\<lparr>total_emails_sent := total_emails_sent s + 1\<rparr>"
    have step: "send_email_to_subscriber env c s db = Inr ?db1"
      using True by (rule send_email_to_subscriber_delivered)
    have key: "s_id ?s1 \<noteq> k" using Cons.prems(2) True by simp
    show ?thesis
    proof (cases "save_subscriber env ?s1 ?db1")
      case (Inl e)
      with Cons.prems(1) step have "send_loop env c rest (n + 1, ?db1) = (n', db')" by simp
      from Cons.IH [OF this rest] show ?thesis by simp
    next
      case (Inr db2)
      with Cons.prems(1) step have "send_loop env c rest (n + 1, db2) = (n', db')" by simp
      from Cons.IH [OF this rest] save_subscriber_rows [OF Inr] rows_other_key [OF key, of "subscribers db"]
      show ?thesis by simp
    qed
  qed
qed

lemma send_loop_row_of_delivered:
  assumes "send_loop env c subs (n, db) = (n', db')"
    and "distinct (map s_id subs)" and "t \<in> set subs" and "delivered env c t"
    and "subscriber_save_error env (t\<lparr>total_emails_sent := total_emails_sent t + 1\<rparr>) = None"
  shows "filter (\<lambda>r. s_id r = s_id t) (subscribers db') =
           map (\<lambda>r. t\<lparr>total_emails_sent := total_emails_sent t + 1\<rparr>)
             (filter (\<lambda>r. s_id r = s_id t) (subscribers db))"
  using assms(1,2,3)
proof (induction subs arbitrary: n db)
  case Nil
  then show ?case by simp
next
  case (Cons s rest)
  let ?t1 = "t\<lparr>total_emails_sent := total_emails_sent t + 1\<rparr>"
  show ?case
  proof (cases "s = t")
    case True
    let ?db1 = "db\<lparr>activities := activities db @ [email_sent_activity c t]\<rparr>"
    have step: "send_email_to_subscriber env c t db = Inr ?db1"
      using assms(4) by (rule send_email_to_subscriber_delivered)
    obtain db2 where sv: "save_subscriber env ?t1 ?db1 = Inr db2"
      using assms(5) by (simp add: save_subscriber_def)
    from Cons.prems(1) True step sv have run: "send_loop env c rest (n + 1, db2) = (n', db')" by simp
    have "\<forall>u \<in> set rest. delivered env c u \<longrightarrow> s_id u \<noteq> s_id t"
      using Cons.prems(2) True by (auto simp: image_iff)
    from send_loop_rows_other [OF run this] save_subscriber_rows [OF sv]
      rows_same_key [of ?t1 "subscribers db"]
    show ?thesis by simp
  next
    case False
    with Cons.prems(3) have t: "t \<in> set rest" by simp
    from Cons.prems(2) have d: "distinct (map s_id rest)" by simp
    from Cons.prems(2) t have key: "s_id s \<noteq> s_id t" by auto
    obtain n1 db1 where one: "send_loop env c [s] (n, db) = (n1, db1)"
      by (cases "send_loop env c [s] (n, db)")
    have "send_loop env c (s # rest) (n, db) = send_loop env c rest (send_loop env c [s] (n, db))"
      using send_loop_append [of env c "[s]" rest "(n, db)"] by simp
    with Cons.prems(1) one have run: "send_loop env c rest (n1, db1) = (n', db')" by simp
    have "\<forall>u \<in> set [s]. delivered env c u \<longrightarrow> s_id u \<noteq> s_id t" using key by simp
    from send_loop_rows_other [OF one this] Cons.IH [OF run d t]
    show ?thesis by simp
  qed
qed

subsection \<open>The outcomes of \<open>send_campaign\<close> and \<open>send_test_email\<close>\<close>

lemma send_campaign_try_not_found:
  "get_campaign db cid = Inl e \<Longrightarrow> send_campaign_try env db cid = (Inl e, db)"
  by (simp add: send_campaign_try_def)

lemma send_campaign_try_not_draft:
  "get_campaign db cid = Inr c \<Longrightarrow> c_status c \<noteq> ''draft'' \<Longrightarrow>
     send_campaign_try env db cid = (Inl (not_in_draft_status c), db)"
  by (simp add: send_campaign_try_def)

lemma send_campaign_try_empty:
  "get_campaign db cid = Inr c \<Longrightarrow> c_status c = ''draft'' \<Longrightarrow> get_target_subscribers db c = [] \<Longrightarrow>
     send_campaign_try env db cid = (Inl no_subscribers_found, db)"
  by (simp add: send_campaign_try_def)

lemma send_campaign_try_draft:
  assumes "get_campaign db cid = Inr c" and "c_status c = ''draft''"
    and "get_target_subscribers db c \<noteq> []"
  shows "send_campaign_try env db cid = dispatch env db c"
proof -
  let ?c1 = "c\<lparr>c_status := ''sending'', total_recipients := length (get_target_subscribers db c)\<rparr>"
  have eq: "get_target_subscribers db1 ?c1 = get_target_subscribers db c"
    if "save_campaign env ?c1 db = Inr db1" for db1
    using save_campaign_frame [OF that] by (intro get_target_subscribers_cong) simp_all
  have 1: "send_campaign_try env db cid =
     (case save_campaign env ?c1 db of
                 Inl e \<Rightarrow> (Inl e, db)
               | Inr db1 \<Rightarrow>
                  (let (sent_count, db2) = send_loop env ?c1 (get_target_subscribers db1 ?c1) (0, db1);
                       c2 = ?c1\<lparr>c_status := ''sent'', total_sent := sent_count,
                                 sent_at := Some (now env)\<rparr>
                   in case save_campaign env c2 db2 of
                        Inl e \<Rightarrow> (Inl e, db2)
                      | Inr db3 \<Rightarrow>
                         (Inr [(''success'', PyBool True),
                               (''message'', PyStr (''Campaign sent to '' @ str_nat sent_count @ '' subscribers'')),
                               (''sent_count'', PyInt sent_count),
                               (''total_recipients'', PyInt (total_recipients c2))], db3)))"
    unfolding send_campaign_try_def assms(1) sum.case Let_def using assms(2,3) by (simp only: if_False not_True_eq_False refl if_True)
  show ?thesis
    unfolding 1 dispatch_def Let_def
    by (cases "save_campaign env ?c1 db") (simp_all only: sum.case eq)
qed

lemma dispatch_Inl: "dispatch env db c = (Inl e, db') \<Longrightarrow> \<exists>msg. e = CollaboratorError msg"
  by (auto simp: dispatch_def Let_def split: sum.splits prod.splits dest: save_campaign_Inl)

lemma not_in_draft_status_neq:
  "not_in_draft_status c \<noteq> DoesNotExist"
  "not_in_draft_status c \<noteq> no_subscribers_found"
  "not_in_draft_status c \<noteq> CollaboratorError msg"
  by (simp_all add: not_in_draft_status_def no_subscribers_found_def)

lemma email_sent_activity_records:
  "email_sent_records (db\<lparr>activities := activities db @ map (email_sent_activity c) subs\<rparr>) (c_id c)
     = email_sent_records db (c_id c) @ map (email_sent_activity c) subs"
  by (induction subs rule: rev_induct) (simp_all add: email_sent_records_def email_sent_activity_def)

lemma dispatch_Inr:
  assumes "dispatch env db c = (Inr r, db')" and "get_campaign db cid = Inr c"
  defines "n \<equiv> length (get_target_subscribers db c)"
  defines "k \<equiv> length (filter (delivered env (c\<lparr>c_status := ''sending'', total_recipients := n\<rparr>))
                           (get_target_subscribers db c))"
  shows "get_campaign db' cid =
           Inr (c\<lparr>c_status := ''sent'', total_recipients := n, total_sent := k, sent_at := Some (now env)\<rparr>)"
    and "length (email_sent_records db' cid) = length (email_sent_records db cid) + k"
    and "r = [(''success'', PyBool True),
              (''message'', PyStr (''Campaign sent to '' @ str_nat k @ '' subscribers'')),
              (''sent_count'', PyInt k), (''total_recipients'', PyInt n)]"
proof -
  let ?c1 = "c\<lparr>c_status := ''sending'', total_recipients := n\<rparr>"
  have cid: "c_id c = cid" using assms(2) by (rule get_campaign_id)
  from assms(1) obtain db1 where s1: "save_campaign env ?c1 db = Inr db1"
    by (cases "save_campaign env ?c1 db") (simp_all add: dispatch_def n_def)
  obtain k' db2 where loop: "send_loop env ?c1 (get_target_subscribers db c) (0, db1) = (k', db2)"
    by (cases "send_loop env ?c1 (get_target_subscribers db c) (0, db1)")
  let ?c2 = "?c1\<lparr>c_status := ''sent'', total_sent := k', sent_at := Some (now env)\<rparr>"
  from assms(1) s1 loop obtain db3 where s2: "save_campaign env ?c2 db2 = Inr db3"
    by (cases "save_campaign env ?c2 db2") (simp_all add: dispatch_def n_def)
  from assms(1) s1 loop s2 have r: "r = [(''success'', PyBool True),
              (''message'', PyStr (''Campaign sent to '' @ str_nat k' @ '' subscribers'')),
              (''sent_count'', PyInt k'), (''total_recipients'', PyInt n)]" and db': "db' = db3"
    by (simp_all add: dispatch_def n_def)
  from send_loop_effect [OF loop] have k': "k' = k"
    and c2: "campaigns db2 = campaigns db1"
    and a2: "activities db2 = activities db1 @ map (email_sent_activity ?c1)
               (filter (delivered env ?c1) (get_target_subscribers db c))"
    by (simp_all add: k_def)
  note f1 = save_campaign_frame [OF s1] and f3 = save_campaign_frame [OF s2]
  have "find (\<lambda>r. c_id r = cid) (campaigns db1) = Some ?c1"
    using assms(2) cid f1 by (simp add: get_campaign_Inr find_map_replace)
  then have "find (\<lambda>r. c_id r = cid) (campaigns db3) = Some ?c2"
    using f3 c2 cid by (simp add: find_map_replace)
  then show "get_campaign db' cid =
           Inr (c\<lparr>c_status := ''sent'', total_recipients := n, total_sent := k, sent_at := Some (now env)\<rparr>)"
    by (simp add: get_campaign_Inr db' k')
  have "email_sent_records db2 cid = email_sent_records db1 cid @ map (email_sent_activity ?c1)
               (filter (delivered env ?c1) (get_target_subscribers db c))"
    using email_sent_activity_records [of db1 ?c1 "filter (delivered env ?c1) (get_target_subscribers db c)"]
      a2 cid by (simp add: email_sent_records_def)
  moreover have "email_sent_records db3 cid = email_sent_records db2 cid"
    using f3 by (simp add: email_sent_records_def)
  moreover have "email_sent_records db1 cid = email_sent_records db cid"
    using f1 by (simp add: email_sent_records_def)
  ultimately show "length (email_sent_records db' cid) = length (email_sent_records db cid) + k"
    by (simp add: db' k_def)
  from r k' show "r = [(''success'', PyBool True),
              (''message'', PyStr (''Campaign sent to '' @ str_nat k @ '' subscribers'')),
              (''sent_count'', PyInt k), (''total_recipients'', PyInt n)]" by simp
qed

lemma send_campaign_try_Inr:
  assumes "send_campaign_try env db cid = (Inr r, db')"
  obtains c where "get_campaign db cid = Inr c" and "c_status c = ''draft''"
    and "get_target_subscribers db c \<noteq> []" and "dispatch env db c = (Inr r, db')"
proof (cases "get_campaign db cid")
  case (Inl e)
  with assms show ?thesis by (simp add: send_campaign_try_not_found)
next
  case (Inr c)
  show ?thesis
  proof (cases "c_status c = ''draft''")
    case False
    with assms Inr show ?thesis by (simp add: send_campaign_try_not_draft)
  next
    case True
    show ?thesis
    proof (cases "get_target_subscribers db c = []")
      case e: True
      with assms Inr True show ?thesis by (simp add: send_campaign_try_empty)
    next
      case False
      with assms Inr True that show ?thesis by (simp add: send_campaign_try_draft)
    qed
  qed
qed

lemma dispatch_succeeds:
  assumes "\<forall>c'. campaign_save_error env c' = None"
  shows "\<exists>r db'. dispatch env db c = (Inr r, db') \<and> map_of r ''success'' = Some (PyBool True)"
proof -
  let ?c1 = "c\<lparr>c_status := ''sending'', total_recipients := length (get_target_subscribers db c)\<rparr>"
  obtain db1 where s1: "save_campaign env ?c1 db = Inr db1"
    using assms by (simp add: save_campaign_def)
  obtain k db2 where loop: "send_loop env ?c1 (get_target_subscribers db c) (0, db1) = (k, db2)"
    by (cases "send_loop env ?c1 (get_target_subscribers db c) (0, db1)")
  obtain db3 where s2: "save_campaign env (?c1\<lparr>c_status := ''sent'', total_sent := k, sent_at := Some (now env)\<rparr>) db2 = Inr db3"
    using assms by (simp add: save_campaign_def)
  from s1 loop s2 show ?thesis by (simp add: dispatch_def)
qed

lemma get_campaign_missing:
  "\<forall>c \<in> set (campaigns db). c_id c \<noteq> cid \<Longrightarrow> get_campaign db cid = Inl DoesNotExist"
  by (auto simp: get_campaign_def find_None_iff split: option.splits)

lemma dispatch_first_save_fails:
  assumes "campaign_save_error env
             (c\<lparr>c_status := ''sending'', total_recipients := length (get_target_subscribers db c)\<rparr>) = Some msg"
  shows "dispatch env db c = (Inl (CollaboratorError msg), db)"
  using assms by (simp add: dispatch_def save_campaign_def)

lemma dispatch_after_first_save:
  assumes c1: "c1 = c\<lparr>c_status := ''sending'', total_recipients := length (get_target_subscribers db c)\<rparr>"
    and k: "k = length (filter (delivered env c1) (get_target_subscribers db c))"
    and c2: "c2 = c1\<lparr>c_status := ''sent'', total_sent := k, sent_at := Some (now env)\<rparr>"
    and s1: "campaign_save_error env c1 = None"
  shows "campaign_save_error env c2 = Some msg \<Longrightarrow> fst (dispatch env db c) = Inl (CollaboratorError msg)"
    and "campaign_save_error env c2 = None \<Longrightarrow>
           fst (dispatch env db c) =
             Inr [(''success'', PyBool True),
                  (''message'', PyStr (''Campaign sent to '' @ str_nat k @ '' subscribers'')),
                  (''sent_count'', PyInt k),
                  (''total_recipients'', PyInt (length (get_target_subscribers db c)))]"
proof -
  obtain db1 where sv: "save_campaign env c1 db = Inr db1"
    using s1 by (simp add: save_campaign_def)
  obtain k' db2 where loop: "send_loop env c1 (get_target_subscribers db c) (0, db1) = (k', db2)"
    by (cases "send_loop env c1 (get_target_subscribers db c) (0, db1)")
  from send_loop_effect [OF loop] have k': "k' = k" by (simp add: k)
  have "dispatch env db c =
          (case save_campaign env c1 db of
             Inl e \<Rightarrow> (Inl e, db)
           | Inr db1 \<Rightarrow>
              (let (k, db2) = send_loop env c1 (get_target_subscribers db c) (0, db1);
                   c2 = c1\<lparr>c_status := ''sent'', total_sent := k, sent_at := Some (now env)\<rparr>
               in case save_campaign env c2 db2 of
                    Inl e \<Rightarrow> (Inl e, db2)
                  | Inr db3 \<Rightarrow>
                     (Inr [(''success'', PyBool True),
                           (''message'', PyStr (''Campaign sent to '' @ str_nat k @ '' subscribers'')),
                           (''sent_count'', PyInt k),
                           (''total_recipients'', PyInt (total_recipients c2))], db3)))"
    unfolding dispatch_def c1 Let_def ..
  then have d: "dispatch env db c =
             (case save_campaign env c2 db2 of
                Inl e \<Rightarrow> (Inl e, db2)
              | Inr db3 \<Rightarrow>
                 (Inr [(''success'', PyBool True),
                       (''message'', PyStr (''Campaign sent to '' @ str_nat k @ '' subscribers'')),
                       (''sent_count'', PyInt k),
                       (''total_recipients'', PyInt (total_recipients c2))], db3))"
    unfolding sv sum.case loop k' Let_def prod.case c2 .
  have n: "total_recipients c2 = length (get_target_subscribers db c)"
    by (simp add: c2 c1)
  show "fst (dispatch env db c) = Inl (CollaboratorError msg)" if "campaign_save_error env c2 = Some msg"
    unfolding d using that by (simp add: save_campaign_def)
  show "fst (dispatch env db c) =
             Inr [(''success'', PyBool True),
                  (''message'', PyStr (''Campaign sent to '' @ str_nat k @ '' subscribers'')),
                  (''sent_count'', PyInt k),
                  (''total_recipients'', PyInt (length (get_target_subscribers db c)))]"
    if "campaign_save_error env c2 = None"
    unfolding d n using that by (simp add: save_campaign_def)
qed

lemma failure_result_shape:
  "\<exists>m. failure_result e = [(''success'', PyBool False), (''message'', PyStr m)]"
  by (cases e) simp_all

lemma send_test_email_effect:
  assumes "get_campaign db cid = Inr c"
  shows "campaigns (snd (send_test_email env db cid addr)) = campaigns db"
    and "subscribers (snd (send_test_email env db cid addr)) = subscribers db"
    and "map_of (fst (send_test_email env db cid addr)) ''success'' =
           Some (PyBool (delivered env c (test_subscriber addr)))"
    and "delivered env c (test_subscriber addr) \<Longrightarrow>
           activities (snd (send_test_email env db cid addr)) =
             activities db @ [email_sent_activity c (test_subscriber addr)]"
    and "\<not> delivered env c (test_subscriber addr) \<Longrightarrow> snd (send_test_email env db cid addr) = db"
proof -
  show "campaigns (snd (send_test_email env db cid addr)) = campaigns db"
    and "subscribers (snd (send_test_email env db cid addr)) = subscribers db"
    using assms
    by (auto simp: send_test_email_def send_test_email_try_def send_email_to_subscriber_def
        split: option.splits)
  show "map_of (fst (send_test_email env db cid addr)) ''success'' =
           Some (PyBool (delivered env c (test_subscriber addr)))"
  proof (cases "delivered env c (test_subscriber addr)")
    case True
    with assms show ?thesis
      by (simp add: send_test_email_def send_test_email_try_def send_email_to_subscriber_delivered)
  next
    case False
    from send_email_to_subscriber_failed [OF this, of db] obtain e
      where e: "send_email_to_subscriber env c (test_subscriber addr) db = Inl e" ..
    then have "e \<noteq> DoesNotExist"
      by (auto simp: send_email_to_subscriber_def split: option.splits)
    with e assms False show ?thesis
      by (cases e) (simp_all add: send_test_email_def send_test_email_try_def)
  qed
  show "activities (snd (send_test_email env db cid addr)) =
             activities db @ [email_sent_activity c (test_subscriber addr)]"
    if "delivered env c (test_subscriber addr)"
    using assms that
    by (simp add: send_test_email_def send_test_email_try_def send_email_to_subscriber_delivered)
  show "snd (send_test_email env db cid addr) = db" if "\<not> delivered env c (test_subscriber addr)"
    using assms send_email_to_subscriber_failed [OF that, of db]
    by (auto simp: send_test_email_def send_test_email_try_def)
qed

text \<open>A test send that reports success has appended an \<^verbatim>\<open>email_sent\<close> activity.\<close>

lemma send_test_email_success_logs:
  assumes "get_campaign db cid = Inr c"
    and "map_of (fst (send_test_email env db cid addr)) ''success'' = Some (PyBool True)"
  shows "activities (snd (send_test_email env db cid addr)) =
           activities db @ [email_sent_activity c (test_subscriber addr)]"
proof -
  from assms send_test_email_effect(3) [OF assms(1), of env addr]
  have "delivered env c (test_subscriber addr)" by simp
  then show ?thesis by (rule send_test_email_effect(4) [OF assms(1)])
qed

subsection \<open>Binary64 rounding\<close>

lemma rhe_error: "\<bar>of_int (rhe x) - x\<bar> \<le> 1/2"
proof -
  have "of_int \<lfloor>x\<rfloor> \<le> x" "x < of_int \<lfloor>x\<rfloor> + 1" by linarith+
  then show ?thesis by (auto simp: rhe_def Let_def)
qed

lemma rhe_eqI:
  assumes "\<bar>of_int m - x\<bar> < 1/2"
  shows "rhe x = m"
proof -
  have "\<bar>of_int (rhe x) - (of_int m :: rat)\<bar> < 1"
    using rhe_error [of x] assms by linarith
  then have "\<bar>(of_int (rhe x - m) :: rat)\<bar> < 1" by simp
  then have "\<bar>rhe x - m\<bar> < 1" by (metis of_int_abs of_int_less_1_iff)
  then show ?thesis by simp
qed

lemma of_int_bitlen_bounds:
  assumes "0 < p"
  shows "(2::rat) powi (bitlen p - 1) \<le> of_int p" and "of_int p < (2::rat) powi bitlen p"
proof -
  from assms have b: "1 \<le> bitlen p" by (auto simp: bitlen_alt_def)
  from bitlen_bounds [OF assms]
  have 1: "2 ^ nat (bitlen p - 1) \<le> p" and 2: "p < 2 ^ nat (bitlen p)" by simp_all
  have "(2::rat) powi (bitlen p - 1) = of_int (2 ^ nat (bitlen p - 1))"
    using b by (simp add: power_int_def)
  also have "\<dots> \<le> of_int p" using 1 by (simp only: of_int_le_iff)
  finally show "(2::rat) powi (bitlen p - 1) \<le> of_int p" .
  have "(of_int p :: rat) < of_int (2 ^ nat (bitlen p))" using 2 by (simp only: of_int_less_iff)
  also have "\<dots> = 2 powi bitlen p" using b by (simp add: power_int_def)
  finally show "of_int p < (2::rat) powi bitlen p" .
qed

lemma ilog2_bounds:
  assumes "0 < x"
  shows "2 powi ilog2 x \<le> x" and "x < 2 powi (ilog2 x + 1)"
proof -
  obtain p q where pq: "quotient_of x = (p, q)" by (cases "quotient_of x")
  then have q: "0 < q" and x: "x = of_int p / of_int q"
    by (simp_all add: quotient_of_denom_pos quotient_of_div)
  with assms have p: "0 < p" by (simp add: zero_less_divide_iff)
  let ?k = "bitlen p - bitlen q"
  note bp = of_int_bitlen_bounds [OF p] and bq = of_int_bitlen_bounds [OF q]
  have qpos: "(0::rat) < of_int q" using q by simp
  have "x < 2 powi bitlen p / of_int q"
    unfolding x using bp(2) qpos by (simp add: divide_strict_right_mono)
  also have "\<dots> \<le> 2 powi bitlen p / 2 powi (bitlen q - 1)"
    using bq(1) qpos by (intro divide_left_mono mult_pos_pos) simp_all
  also have "\<dots> = 2 powi (?k + 1)"
    by (simp add: power_int_diff [symmetric] algebra_simps)
  finally have up: "x < 2 powi (?k + 1)" .
  have "(2::rat) powi (?k - 1) = 2 powi (bitlen p - 1) / 2 powi bitlen q"
    by (simp add: power_int_diff [symmetric] algebra_simps)
  also have "\<dots> < 2 powi (bitlen p - 1) / of_int q"
    using bq(2) qpos by (intro divide_strict_left_mono) simp_all
  also have "\<dots> \<le> x"
    unfolding x using bp(1) qpos by (simp add: divide_right_mono)
  finally have lo: "2 powi (?k - 1) < x" .
  have il: "ilog2 x = (if 2 powi ?k \<le> x then ?k else ?k - 1)"
    by (simp add: ilog2_def pq)
  show "2 powi ilog2 x \<le> x" using lo by (simp add: il)
  show "x < 2 powi (ilog2 x + 1)" using up by (auto simp: il not_le)
qed

lemma powi2_less_imp_less: "(2::rat) powi m < 2 powi n \<Longrightarrow> m < n"
  using power_int_increasing [of n m "2::rat"] by (cases "m < n") simp_all

lemma ilog2_eqI:
  assumes "2 powi k \<le> x" and "x < 2 powi (k + 1)"
  shows "ilog2 x = k"
proof -
  have "(0::rat) < 2 powi k" by simp
  with assms have x: "0 < x" by linarith
  note b = ilog2_bounds [OF x]
  have "(2::rat) powi k < 2 powi (ilog2 x + 1)" using assms(1) b(2) by linarith
  then have 1: "k < ilog2 x + 1" by (rule powi2_less_imp_less)
  have "(2::rat) powi ilog2 x < 2 powi (k + 1)" using assms(2) b(1) by linarith
  then have "ilog2 x < k + 1" by (rule powi2_less_imp_less)
  with 1 show ?thesis by simp
qed

lemma fl_pos:
  assumes "0 < x"
  shows "fl x = of_int (rhe (x / 2 powi (ilog2 x - 52))) * 2 powi (ilog2 x - 52)"
  using assms by (simp add: fl_def Let_def)

lemma fl_error:
  assumes "0 < x"
  shows "\<bar>fl x - x\<bar> \<le> x / 2 ^ 53"
proof -
  let ?e = "ilog2 x - 52"
  let ?s = "(2::rat) powi ?e"
  have s: "0 < ?s" by simp
  have "\<bar>of_int (rhe (x / ?s)) - x / ?s\<bar> \<le> 1/2" by (rule rhe_error)
  then have "\<bar>of_int (rhe (x / ?s)) - x / ?s\<bar> * ?s \<le> 1/2 * ?s"
    using s by (intro mult_right_mono) simp_all
  moreover have "\<bar>of_int (rhe (x / ?s)) - x / ?s\<bar> * ?s = \<bar>(of_int (rhe (x / ?s)) - x / ?s) * ?s\<bar>"
    using s by (simp add: abs_mult)
  moreover have "(of_int (rhe (x / ?s)) - x / ?s) * ?s = of_int (rhe (x / ?s)) * ?s - x"
    using s by (simp add: left_diff_distrib)
  ultimately have "\<bar>of_int (rhe (x / ?s)) * ?s - x\<bar> \<le> ?s / 2"
    by simp
  then have 1: "\<bar>fl x - x\<bar> \<le> ?s / 2" by (simp add: fl_pos [OF assms])
  have "?s * 2 ^ 52 = 2 powi ilog2 x"
    by (simp add: power_int_diff)
  also have "\<dots> \<le> x" by (rule ilog2_bounds [OF assms])
  finally have "?s / 2 \<le> x / 2 ^ 53" by (simp add: field_simps)
  with 1 show ?thesis by linarith
qed

lemma fl_eqI:
  assumes "2 powi (e + 52) \<le> x" and "x < 2 powi (e + 53)" and "\<bar>of_int m - x / 2 powi e\<bar> < 1/2"
  shows "fl x = of_int m * 2 powi e"
proof -
  have "ilog2 x = e + 52" using assms(1,2) by (intro ilog2_eqI) (simp_all add: add.commute add.left_commute)
  moreover have "(0::rat) < 2 powi (e + 52)" by simp
  then have "0 < x" using assms(1) by linarith
  ultimately show ?thesis using rhe_eqI [OF assms(3)] by (simp add: fl_pos)
qed

lemma fl_0 [simp]: "fl 0 = 0" by (simp add: fl_def)

lemma fl_pos_gt0:
  assumes "0 < x" shows "0 < fl x"
proof -
  have "x / 2 ^ 53 < x" using assms by (simp add: field_simps)
  with fl_error [OF assms] show ?thesis by linarith
qed

lemma int_near_half:
  fixes n a b :: int
  assumes b: "0 < b" and "\<bar>of_int n - (of_int a :: rat) / of_int b\<bar> < 1/2 + 1 / (2 * of_int b)"
  shows "\<bar>of_int n - (of_int a :: rat) / of_int b\<bar> \<le> 1/2"
proof -
  define t where "t = n * b - a"
  have bp: "(0::rat) < of_int b" using b by simp
  have "of_int n - (of_int a :: rat) / of_int b = of_int t / of_int b"
    using bp by (simp add: t_def field_simps)
  then have eq: "\<bar>of_int n - (of_int a :: rat) / of_int b\<bar> = of_int \<bar>t\<bar> / of_int b"
    using bp by (simp add: abs_divide)
  have "(of_int \<bar>t\<bar> :: rat) / of_int b < 1/2 + 1 / (2 * of_int b)"
    using assms(2) unfolding eq .
  then have "(of_int \<bar>t\<bar> :: rat) * 2 < of_int b + 1"
    using bp by (simp add: field_simps)
  then have "(of_int (\<bar>t\<bar> * 2) :: rat) < of_int (b + 1)" by simp
  then have "\<bar>t\<bar> * 2 < b + 1" by (simp only: of_int_less_iff)
  then have "\<bar>t\<bar> * 2 \<le> b" by simp
  then have "(of_int (\<bar>t\<bar> * 2) :: rat) \<le> of_int b" by (simp only: of_int_le_iff)
  then have "(of_int \<bar>t\<bar> :: rat) / of_int b \<le> 1/2"
    using bp by (simp add: field_simps)
  then show ?thesis unfolding eq .
qed

lemma powi_neg_numeral: "(2::rat) powi (- numeral k) = 1 / 2 ^ numeral k"
  by (simp add: power_int_def field_simps)

lemma percentage_nearest:
  assumes b: "0 < b" and a: "a < 2 ^ 31"
  shows "\<exists>n::int. \<bar>(of_int n :: rat) / 10 - 100 * of_nat a / of_nat b\<bar> \<le> 1/20 \<and>
                  py_round (fmul (truediv a b) 100) 1 = fl (of_int n / 10)"
proof (cases "a = 0")
  case True
  have "rhe 0 = 0" by (rule rhe_eqI) simp
  then have "py_round (fmul (truediv a b) 100) 1 = fl (of_int 0 / 10)"
    using True by (simp add: py_round_def fmul_def truediv_def)
  then show ?thesis using True by (intro exI [of _ 0]) simp
next
  case False
  define x :: rat where "x = of_nat a / of_nat b"
  define q where "q = fl x"
  define p where "p = fl (q * 100)"
  define n where "n = rhe (p * 10)"
  have bp: "(0::rat) < of_nat b" using b by simp
  have x: "0 < x" using False b by (simp add: x_def)
  have q: "0 < q" unfolding q_def using x by (rule fl_pos_gt0)
  have eq: "\<bar>q - x\<bar> \<le> x / 2 ^ 53" unfolding q_def using x by (rule fl_error)
  have ep: "\<bar>p - q * 100\<bar> \<le> q * 100 / 2 ^ 53" unfolding p_def using q by (intro fl_error) simp
  have en: "\<bar>of_int n - p * 10\<bar> \<le> 1/2" unfolding n_def by (rule rhe_error)
  have "x / 2 ^ 53 \<le> x" using x by (simp add: field_simps)
  with eq have "q \<le> 2 * x" by linarith
  then have "q * 100 / 2 ^ 53 \<le> 200 * x / 2 ^ 53" by (simp add: field_simps)
  with ep have ep': "\<bar>p - q * 100\<bar> \<le> 200 * x / 2 ^ 53" by linarith
  have "\<bar>p * 10 - 1000 * x\<bar> \<le> 10 * \<bar>p - q * 100\<bar> + 1000 * \<bar>q - x\<bar>"
    by (simp add: abs_le_iff abs_if)
  also have "\<dots> \<le> 3000 * x / 2 ^ 53" using ep' eq by (simp add: field_simps)
  finally have ez: "\<bar>p * 10 - 1000 * x\<bar> \<le> 3000 * x / 2 ^ 53" .
  have "(of_nat (6000 * a) :: rat) < of_nat (2 ^ 53)"
    using a by (simp only: of_nat_less_iff) simp
  then have "3000 * (of_nat a :: rat) / 2 ^ 53 < 1 / 2" by simp
  then have "3000 * (of_nat a :: rat) / 2 ^ 53 / of_nat b < 1 / 2 / of_nat b"
    using bp by (simp only: divide_strict_right_mono)
  then have small: "3000 * x / 2 ^ 53 < 1 / (2 * of_nat b)"
    by (simp add: x_def field_simps)
  have "\<bar>of_int n - 1000 * x\<bar> \<le> \<bar>of_int n - p * 10\<bar> + \<bar>p * 10 - 1000 * x\<bar>" by linarith
  with en ez small have "\<bar>of_int n - 1000 * x\<bar> < 1/2 + 1 / (2 * of_nat b)" by linarith
  moreover have "1000 * x = (of_int (1000 * int a) :: rat) / of_int (int b)" by (simp add: x_def)
  ultimately have "\<bar>of_int n - (of_int (1000 * int a) :: rat) / of_int (int b)\<bar> < 1/2 + 1 / (2 * of_int (int b))"
    by simp
  from int_near_half [OF _ this] b
  have "\<bar>of_int n - (of_int (1000 * int a) :: rat) / of_int (int b)\<bar> \<le> 1/2" by simp
  then have "\<bar>of_int n - 1000 * x\<bar> \<le> 1/2" by (simp add: x_def)
  then have "\<bar>(of_int n :: rat) / 10 - 100 * of_nat a / of_nat b\<bar> \<le> 1/20"
    by (simp add: x_def abs_le_iff field_simps)
  moreover have "py_round (fmul (truediv a b) 100) 1 = fl (of_int n / 10)"
    by (simp add: py_round_def fmul_def truediv_def n_def p_def q_def x_def)
  ultimately show ?thesis by blast
qed

lemma percentage_40_of_100: "py_round (fmul (truediv 40 100) 100) 1 = 40"
proof -
  have q: "truediv 40 100 = 7205759403792794 * 2 powi (- 54)"
    unfolding truediv_def
    using fl_eqI [of "- 54" "of_nat 40 / of_nat 100" 7205759403792794]
    by (simp add: powi_neg_numeral)
  have p: "fmul (truediv 40 100) 100 = 40"
    unfolding fmul_def q
    using fl_eqI [of "- 47" "7205759403792794 * 2 powi (- 54) * 100" 5629499534213120]
    by (simp add: powi_neg_numeral)
  have n: "rhe 400 = 400" by (rule rhe_eqI) simp
  have "fl (of_int 400 / 10) = 40"
    using fl_eqI [of "- 47" "of_int 400 / 10" 5629499534213120]
    by (simp add: powi_neg_numeral)
  then show ?thesis by (simp add: py_round_def p n)
qed

lemma percentage_rounded:
  assumes "0 < b" and "a < 2 ^ 31"
  shows "rounded_to_one_decimal (py_round (fmul (truediv a b) 100) 1) (100 * of_nat a / of_nat b)"
  unfolding rounded_to_one_decimal_def using percentage_nearest [OF assms] by blast

text \<open>
  At an exact tie the float arithmetic decides: 0.15 per cent and 0.05 per cent both
  come out as the float of 0.1.
\<close>

lemma percentages_half_way:
  "py_round (fmul (truediv 3 2000) 100) 1 = fl (1 / 10)"
  "py_round (fmul (truediv 1 2000) 100) 1 = fl (1 / 10)"
proof -
  have q3: "truediv 3 2000 = 6917529027641082 * 2 powi (- 62)"
    unfolding truediv_def
    using fl_eqI [of "- 62" "of_nat 3 / of_nat 2000" 6917529027641082]
    by (simp add: powi_neg_numeral)
  have p3: "fmul (truediv 3 2000) 100 = 5404319552844595 * 2 powi (- 55)"
    unfolding fmul_def q3
    using fl_eqI [of "- 55" "6917529027641082 * 2 powi (- 62) * 100" 5404319552844595]
    by (simp add: powi_neg_numeral)
  have n3: "rhe (5404319552844595 * 2 powi (- 55) * 10 ^ 1) = 1"
    by (rule rhe_eqI) (simp add: powi_neg_numeral)
  show "py_round (fmul (truediv 3 2000) 100) 1 = fl (1 / 10)"
    unfolding py_round_def p3 n3 by simp
  have q1: "truediv 1 2000 = 4611686018427388 * 2 powi (- 63)"
    unfolding truediv_def
    using fl_eqI [of "- 63" "of_nat 1 / of_nat 2000" 4611686018427388]
    by (simp add: powi_neg_numeral)
  have p1: "fmul (truediv 1 2000) 100 = 7205759403792794 * 2 powi (- 57)"
    unfolding fmul_def q1
    using fl_eqI [of "- 57" "4611686018427388 * 2 powi (- 63) * 100" 7205759403792794]
    by (simp add: powi_neg_numeral)
  have n1: "rhe (7205759403792794 * 2 powi (- 57) * 10 ^ 1) = 1"
    by (rule rhe_eqI) (simp add: powi_neg_numeral)
  show "py_round (fmul (truediv 1 2000) 100) 1 = fl (1 / 10)"
    unfolding py_round_def p1 n1 by simp
qed

section \<open>The claims\<close>

subsection \<open>Audience resolution\<close>

text \<open>
  Claim C1, as the code has it. For a campaign with \<^verbatim>\<open>send_to_all = False\<close>, no target
  category and no target subscriber, neither filter of \<^verbatim>\<open>_get_target_subscribers\<close>
  runs: the resolved audience is the whole base-eligible set (every active, verified
  subscriber, in the table's order), and resolution raises nothing.
\<close>

theorem C1_amended:
  assumes "\<not> send_to_all c" and "target_categories c = []" and "target_subscribers c = []"
  shows "get_target_subscribers db c =
           filter (\<lambda>s. s_status s = ''active'' \<and> is_verified s) (subscribers db)"
  using assms by (simp add: get_target_subscribers_def base_eligible_fun)

text \<open>
  Claim C1 as stated (the audience is empty) fails: with one active, verified subscriber
  in the table, the campaign with no targeting at all resolves to that subscriber.
\<close>

theorem C1_counterexample:
  "\<not> send_to_all (mk_campaign 7 ''draft'' False [] []) \<and>
   target_categories (mk_campaign 7 ''draft'' False [] []) = [] \<and>
   target_subscribers (mk_campaign 7 ''draft'' False [] []) = [] \<and>
   get_target_subscribers (mk_db [mk_subscriber 1 ''active'' True []] [])
     (mk_campaign 7 ''draft'' False [] []) = [mk_subscriber 1 ''active'' True []]"
  by (simp add: get_target_subscribers_def base_eligible_def example_defs)

text \<open>
  The amended C1 at a table with one eligible subscriber and one bounced subscriber.
\<close>

theorem C1_witness:
  "get_target_subscribers (mk_db [mk_subscriber 1 ''active'' True [], mk_subscriber 2 ''bounced'' True []] [])
     (mk_campaign 7 ''draft'' False [] []) = [mk_subscriber 1 ''active'' True []]"
  using C1_amended [of "mk_campaign 7 ''draft'' False [] []"
      "mk_db [mk_subscriber 1 ''active'' True [], mk_subscriber 2 ''bounced'' True []] []"]
  by (simp add: example_defs)

text \<open>
  Claim C4, as the code has it. When \<^verbatim>\<open>send_to_all\<close> is false the audience is the
  base-eligible set, restricted to the subscribers with at least one interest among the
  target categories when there are target categories (one common category suffices), and
  restricted as well to the explicit subscriber list when there is one: both restrictions
  apply when both are given.
\<close>

theorem C4_amended:
  assumes "\<not> send_to_all c"
  shows "get_target_subscribers db c =
           filter (\<lambda>s. (s_status s = ''active'' \<and> is_verified s) \<and>
                        (target_categories c = [] \<or>
                           (\<exists>t \<in> set (subscription_interests s). t \<in> set (target_categories c))) \<and>
                        (target_subscribers c = [] \<or>
                           (\<exists>i. s_id s = Some i \<and> i \<in> set (target_subscribers c))))
                  (subscribers db)"
  using assms
  by (cases "target_categories c = []"; cases "target_subscribers c = []")
     (simp_all add: get_target_subscribers_def base_eligible_fun interested_in_fun id_in_fun conj_ac)

text \<open>
  Claim C4 as stated (the explicit list is ignored when categories are given) fails:
  subscribers 1 and 2 are both eligible and interested in category 5, the explicit list
  names subscriber 2 only, and the audience is subscriber 2 alone, not the two.
\<close>

theorem C4_counterexample:
  "\<not> send_to_all (mk_campaign 7 ''draft'' False [5] [2]) \<and>
   target_categories (mk_campaign 7 ''draft'' False [5] [2]) \<noteq> [] \<and>
   filter (interested_in (target_categories (mk_campaign 7 ''draft'' False [5] [2])))
     (filter base_eligible
       (subscribers (mk_db [mk_subscriber 1 ''active'' True [5], mk_subscriber 2 ''active'' True [5]] [])))
     = [mk_subscriber 1 ''active'' True [5], mk_subscriber 2 ''active'' True [5]] \<and>
   get_target_subscribers
     (mk_db [mk_subscriber 1 ''active'' True [5], mk_subscriber 2 ''active'' True [5]] [])
     (mk_campaign 7 ''draft'' False [5] [2]) = [mk_subscriber 2 ''active'' True [5]]"
  by (simp add: get_target_subscribers_def base_eligible_def interested_in_def id_in_def example_defs)

text \<open>
  The amended C4 at a campaign with category 5 and explicit list 2, 3: only subscriber 3
  is both interested and listed.
\<close>

theorem C4_witness:
  "get_target_subscribers
     (mk_db [mk_subscriber 1 ''active'' True [5], mk_subscriber 2 ''active'' True [6],
             mk_subscriber 3 ''active'' True [5, 6]] [])
     (mk_campaign 7 ''draft'' False [5] [2, 3]) = [mk_subscriber 3 ''active'' True [5, 6]]"
  using C4_amended [of "mk_campaign 7 ''draft'' False [5] [2, 3]"
     "mk_db [mk_subscriber 1 ''active'' True [5], mk_subscriber 2 ''active'' True [6],
             mk_subscriber 3 ''active'' True [5, 6]] []"]
  by (simp add: example_defs)

text \<open>
  Claim C5. Whatever the targeting rule, every subscriber of the resolved audience is
  active and verified; a subscriber that is not active or not verified is not in it.
\<close>

theorem C5_base_eligibility:
  "(s \<in> set (get_target_subscribers db c) \<longrightarrow> s_status s = ''active'' \<and> is_verified s) \<and>
   (s_status s \<noteq> ''active'' \<or> \<not> is_verified s \<longrightarrow> s \<notin> set (get_target_subscribers db c))"
  by (auto simp: set_get_target_subscribers base_eligible_def)

text \<open>
  C5 at the four-subscriber table: subscriber 2 is in the audience of a campaign targeting
  category 5, and is active and verified; subscriber 3, unsubscribed, is not in it.
\<close>

theorem C5_witness:
  "s_status (mk_subscriber 2 ''active'' True [5]) = ''active'' \<and> is_verified (mk_subscriber 2 ''active'' True [5]) \<and>
   mk_subscriber 3 ''unsubscribed'' True [5] \<notin> set (get_target_subscribers db_one (mk_campaign 7 ''draft'' False [5] []))"
proof -
  have "mk_subscriber 2 ''active'' True [5] \<in> set (get_target_subscribers db_one (mk_campaign 7 ''draft'' False [5] []))"
    by (simp add: get_target_subscribers_def base_eligible_def interested_in_def db_one_def example_defs)
  moreover have "s_status (mk_subscriber 3 ''unsubscribed'' True [5]) \<noteq> ''active''"
    by (simp add: example_defs)
  ultimately show ?thesis
    using C5_base_eligibility [of "mk_subscriber 2 ''active'' True [5]" db_one "mk_campaign 7 ''draft'' False [5] []"]
      C5_base_eligibility [of "mk_subscriber 3 ''unsubscribed'' True [5]" db_one "mk_campaign 7 ''draft'' False [5] []"]
    by blast
qed

subsection \<open>Starting a send\<close>

text \<open>
  Claim C2, as the code has it. For an existing campaign, \<^verbatim>\<open>send_campaign\<close> raises
  its "not in draft status" \<^verbatim>\<open>ValueError\<close> exactly when the status is not
  \<^verbatim>\<open>'draft'\<close> (a scheduled campaign is rejected like any other), and the rejected
  call returns \<^verbatim>\<open>success = False\<close> with that message and leaves the database, so
  every counter, as it was.
\<close>

theorem C2_amended:
  assumes "get_campaign db cid = Inr c"
  shows "(fst (send_campaign_try env db cid) = Inl (not_in_draft_status c) \<longleftrightarrow> c_status c \<noteq> ''draft'') \<and>
         (c_status c \<noteq> ''draft'' \<longrightarrow>
            send_campaign env db cid =
              ([(''success'', PyBool False),
                (''message'', PyStr (''Campaign '' @ name c @ '' is not in draft status''))], db))"
proof (cases "c_status c = ''draft''")
  case False
  from send_campaign_try_not_draft [OF assms False, of env] show ?thesis
    using False by (simp add: send_campaign_def not_in_draft_status_def)
next
  case True
  have "fst (send_campaign_try env db cid) \<noteq> Inl (not_in_draft_status c)"
  proof (cases "get_target_subscribers db c = []")
    case True
    from send_campaign_try_empty [OF assms \<open>c_status c = ''draft''\<close> True, of env]
    show ?thesis by (simp add: not_in_draft_status_neq [symmetric])
  next
    case False
    have eq: "send_campaign_try env db cid = dispatch env db c"
      using assms True False by (rule send_campaign_try_draft)
    show ?thesis
    proof
      assume "fst (send_campaign_try env db cid) = Inl (not_in_draft_status c)"
      then have "dispatch env db c = (Inl (not_in_draft_status c), snd (dispatch env db c))"
        unfolding eq by (metis prod.collapse)
      from dispatch_Inl [OF this] show False
        by (simp add: not_in_draft_status_def)
    qed
  qed
  with True show ?thesis by simp
qed

text \<open>
  Claim C2 as stated (a scheduled campaign is accepted) fails: the scheduled campaign 7,
  whose audience is not empty, is rejected and nothing is sent.
\<close>

theorem C2_counterexample:
  "get_campaign db_scheduled 7 = Inr (mk_campaign 7 ''scheduled'' True [] []) \<and>
   c_status (mk_campaign 7 ''scheduled'' True [] []) = ''scheduled'' \<and>
   send_campaign env_ok db_scheduled 7 =
     ([(''success'', PyBool False), (''message'', PyStr ''Campaign weekly is not in draft status'')],
      db_scheduled)"
  by (simp add: db_scheduled_def send_campaign_def send_campaign_try_def get_campaign_def
        not_in_draft_status_def example_defs)

text \<open>
  The amended C2 at the scheduled campaign.
\<close>

theorem C2_witness:
  "fst (send_campaign_try env_ok db_scheduled 7) = Inl (not_in_draft_status (mk_campaign 7 ''scheduled'' True [] [])) \<and>
   snd (send_campaign env_ok db_scheduled 7) = db_scheduled"
proof -
  have g: "get_campaign db_scheduled 7 = Inr (mk_campaign 7 ''scheduled'' True [] [])"
    by (simp add: db_scheduled_def get_campaign_def example_defs)
  have s: "c_status (mk_campaign 7 ''scheduled'' True [] []) \<noteq> ''draft''"
    by (simp add: example_defs)
  from C2_amended [OF g, of env_ok] s show ?thesis by simp
qed

text \<open>
  Claim C8. For a draft campaign whose resolved audience is empty, \<^verbatim>\<open>send_campaign\<close>
  raises its "No subscribers found" \<^verbatim>\<open>ValueError\<close> before the status is touched: the
  caller gets \<^verbatim>\<open>success = False\<close> with that message and the database is unchanged
  (the campaign keeps its status and its counters).
\<close>

theorem C8_empty_audience:
  assumes "get_campaign db cid = Inr c" and "c_status c = ''draft''"
    and "get_target_subscribers db c = []"
  shows "fst (send_campaign_try env db cid) = Inl no_subscribers_found \<and>
         send_campaign env db cid =
           ([(''success'', PyBool False),
             (''message'', PyStr ''No subscribers found for this campaign'')], db)"
  using send_campaign_try_empty [OF assms, of env]
  by (simp add: send_campaign_def no_subscribers_found_def)

text \<open>
  C8 at a draft campaign sent to all, with no active and verified subscriber in the table.
\<close>

theorem C8_witness:
  "send_campaign env_ok db_empty_audience 7 =
     ([(''success'', PyBool False), (''message'', PyStr ''No subscribers found for this campaign'')],
      db_empty_audience) \<and>
   get_campaign db_empty_audience 7 = Inr (mk_campaign 7 ''draft'' True [] [])"
proof -
  have g: "get_campaign db_empty_audience 7 = Inr (mk_campaign 7 ''draft'' True [] [])"
    by (simp add: db_empty_audience_def get_campaign_def example_defs)
  have s: "c_status (mk_campaign 7 ''draft'' True [] []) = ''draft''"
    by (simp add: example_defs)
  have a: "get_target_subscribers db_empty_audience (mk_campaign 7 ''draft'' True [] []) = []"
    by (simp add: db_empty_audience_def get_target_subscribers_def base_eligible_def example_defs)
  from C8_empty_audience [OF g s a, of env_ok] g show ?thesis by simp
qed

subsection \<open>The send itself\<close>

text \<open>
  Claim C6. Let the delivery to recipient \<open>s\<close> fail (rendering, \<^verbatim>\<open>email.send()\<close> or
  the activity write raises). Then \<open>s\<close> alone leaves the loop's state as it was, and
  a batch with \<open>s\<close> in it ends as the batch without \<open>s\<close>. The recipients before and
  after \<open>s\<close> are processed: \<^verbatim>\<open>sent_count\<close> grows by the number of them whose
  delivery succeeds, the ledger gains exactly their \<^verbatim>\<open>email_sent\<close> activities, in order,
  and none for \<open>s\<close>, and no campaign row changes. When the recipients have distinct keys,
  the subscriber rows with the key of \<open>s\<close> are unchanged, and each delivered recipient
  whose \<^verbatim>\<open>save()\<close> succeeds is stored with \<^verbatim>\<open>total_emails_sent\<close> one higher.
  The failure does not reach the caller: when the two \<^verbatim>\<open>campaign.save()\<close> calls
  succeed, the send of a draft campaign with \<open>s\<close> in its audience returns
  \<^verbatim>\<open>success = True\<close>, with \<^verbatim>\<open>sent_count\<close> the number of delivered recipients and
  that many new \<^verbatim>\<open>email_sent\<close> activities.
\<close>

theorem C6_recipient_failure_isolated:
  assumes "render_error env c s \<noteq> None \<or> send_error env c s \<noteq> None \<or>
           create_error env (email_sent_activity c s) \<noteq> None"
  shows "send_loop env c [s] st = st \<and>
         send_loop env c (before @ s # rest) st = send_loop env c (before @ rest) st \<and>
         (\<forall>n db n' db'.
            send_loop env c (before @ s # rest) (n, db) = (n', db') \<longrightarrow>
              n' = n + length (filter (delivered env c) before) + length (filter (delivered env c) rest) \<and>
              activities db' =
                activities db @ map (email_sent_activity c) (filter (delivered env c) before)
                              @ map (email_sent_activity c) (filter (delivered env c) rest) \<and>
              campaigns db' = campaigns db \<and>
              (distinct (map s_id (before @ s # rest)) \<longrightarrow>
                 filter (\<lambda>r. s_id r = s_id s) (subscribers db') =
                   filter (\<lambda>r. s_id r = s_id s) (subscribers db) \<and>
                 (\<forall>t \<in> set (before @ rest).
                    delivered env c t \<and>
                    subscriber_save_error env (t\<lparr>total_emails_sent := total_emails_sent t + 1\<rparr>) = None \<longrightarrow>
                      filter (\<lambda>r. s_id r = s_id t) (subscribers db') =
                        map (\<lambda>r. t\<lparr>total_emails_sent := total_emails_sent t + 1\<rparr>)
                          (filter (\<lambda>r. s_id r = s_id t) (subscribers db))))) \<and>
         (\<forall>db cid c0.
            get_campaign db cid = Inr c0 \<and> c_status c0 = ''draft'' \<and>
            c = c0\<lparr>c_status := ''sending'', total_recipients := length (get_target_subscribers db c0)\<rparr> \<and>
            s \<in> set (get_target_subscribers db c0) \<and> (\<forall>c'. campaign_save_error env c' = None)
            \<longrightarrow> (\<exists>r db'. send_campaign_try env db cid = (Inr r, db') \<and>
                          map_of r ''success'' = Some (PyBool True) \<and>
                          map_of r ''sent_count'' =
                            Some (PyInt (length (filter (delivered env c) (get_target_subscribers db c0)))) \<and>
                          length (email_sent_records db' cid) =
                            length (email_sent_records db cid) +
                            length (filter (delivered env c) (get_target_subscribers db c0))))"
proof -
  from assms have nd: "\<not> delivered env c s" by (auto simp: delivered_def)
  have one: "send_loop env c (s # xs) st' = send_loop env c xs st'" for xs st'
    by (cases st') (simp only: send_loop_failed_step [OF nd])
  have a: "send_loop env c [s] st = st" by (simp only: one send_loop.simps(1))
  have b: "send_loop env c (before @ s # rest) st' = send_loop env c (before @ rest) st'" for st'
    by (simp only: send_loop_append one)
  have l: "n' = n + length (filter (delivered env c) before) + length (filter (delivered env c) rest) \<and>
           activities db' =
                activities db @ map (email_sent_activity c) (filter (delivered env c) before)
                              @ map (email_sent_activity c) (filter (delivered env c) rest) \<and>
           campaigns db' = campaigns db \<and>
           (distinct (map s_id (before @ s # rest)) \<longrightarrow>
                 filter (\<lambda>r. s_id r = s_id s) (subscribers db') =
                   filter (\<lambda>r. s_id r = s_id s) (subscribers db) \<and>
                 (\<forall>t \<in> set (before @ rest).
                    delivered env c t \<and>
                    subscriber_save_error env (t\<lparr>total_emails_sent := total_emails_sent t + 1\<rparr>) = None \<longrightarrow>
                      filter (\<lambda>r. s_id r = s_id t) (subscribers db') =
                        map (\<lambda>r. t\<lparr>total_emails_sent := total_emails_sent t + 1\<rparr>)
                          (filter (\<lambda>r. s_id r = s_id t) (subscribers db))))"
    if run: "send_loop env c (before @ s # rest) (n, db) = (n', db')" for n db n' db'
  proof -
    from run have run': "send_loop env c (before @ rest) (n, db) = (n', db')" by (simp only: b)
    from send_loop_effect [OF run']
    have 1: "n' = n + length (filter (delivered env c) before) + length (filter (delivered env c) rest)"
      and 2: "activities db' =
                activities db @ map (email_sent_activity c) (filter (delivered env c) before)
                              @ map (email_sent_activity c) (filter (delivered env c) rest)"
      and 3: "campaigns db' = campaigns db"
      by simp_all
    have 4: "filter (\<lambda>r. s_id r = s_id s) (subscribers db') =
                   filter (\<lambda>r. s_id r = s_id s) (subscribers db)"
      if d: "distinct (map s_id (before @ s # rest))"
    proof -
      have "\<forall>t \<in> set (before @ rest). delivered env c t \<longrightarrow> s_id t \<noteq> s_id s"
        using d by (auto simp: image_iff)
      from send_loop_rows_other [OF run' this] show ?thesis .
    qed
    have 5: "filter (\<lambda>r. s_id r = s_id t) (subscribers db') =
                        map (\<lambda>r. t\<lparr>total_emails_sent := total_emails_sent t + 1\<rparr>)
                          (filter (\<lambda>r. s_id r = s_id t) (subscribers db))"
      if d: "distinct (map s_id (before @ s # rest))" and t: "t \<in> set (before @ rest)"
        and dt: "delivered env c t"
        and sv: "subscriber_save_error env (t\<lparr>total_emails_sent := total_emails_sent t + 1\<rparr>) = None"
      for t
    proof -
      from d have "distinct (map s_id (before @ rest))" by simp
      from send_loop_row_of_delivered [OF run' this t dt sv] show ?thesis .
    qed
    from 1 2 3 4 5 show ?thesis by blast
  qed
  have top: "\<exists>r db'. send_campaign_try env db cid = (Inr r, db') \<and>
                          map_of r ''success'' = Some (PyBool True) \<and>
                          map_of r ''sent_count'' =
                            Some (PyInt (length (filter (delivered env c) (get_target_subscribers db c0)))) \<and>
                          length (email_sent_records db' cid) =
                            length (email_sent_records db cid) +
                            length (filter (delivered env c) (get_target_subscribers db c0))"
    if g: "get_campaign db cid = Inr c0" and dr: "c_status c0 = ''draft''"
      and c: "c = c0\<lparr>c_status := ''sending'', total_recipients := length (get_target_subscribers db c0)\<rparr>"
      and m: "s \<in> set (get_target_subscribers db c0)" and ok: "\<forall>c'. campaign_save_error env c' = None"
    for db cid c0
  proof -
    from m have ne: "get_target_subscribers db c0 \<noteq> []" by auto
    from dispatch_succeeds [OF ok, of db c0] obtain r db'
      where d: "dispatch env db c0 = (Inr r, db')" by blast
    have run: "send_campaign_try env db cid = (Inr r, db')"
      using send_campaign_try_draft [OF g dr ne, of env] d by simp
    from dispatch_Inr(2,3) [OF d g] run show ?thesis
      unfolding c by auto
  qed
  from a b [of st] l top show ?thesis by blast
qed

text \<open>
  C6 at campaign 7 of \<open>db_five\<close>, whose transport refuses subscriber 2: that recipient
  alone leaves the state as it was; the batch 1, 2, 3 ends with \<^verbatim>\<open>sent_count = 2\<close>, the
  activities of 1 and 3 in the ledger, the row of subscriber 2 as before and the row of
  subscriber 3 with one e-mail sent; the whole send returns \<^verbatim>\<open>success = True\<close> with
  \<^verbatim>\<open>sent_count = 4\<close>.
\<close>

theorem C6_witness:
  "send_error env_refuse2 sending_five (mk_subscriber 2 ''active'' True []) = Some ''refused'' \<and>
   send_loop env_refuse2 sending_five [mk_subscriber 2 ''active'' True []] (0, db_five) = (0, db_five) \<and>
   (\<exists>db'. send_loop env_refuse2 sending_five
             [mk_subscriber 1 ''active'' True [], mk_subscriber 2 ''active'' True [],
              mk_subscriber 3 ''active'' True []] (0, db_five) = (2, db') \<and>
          activities db' = [email_sent_activity sending_five (mk_subscriber 1 ''active'' True []),
                            email_sent_activity sending_five (mk_subscriber 3 ''active'' True [])] \<and>
          filter (\<lambda>r. s_id r = Some 2) (subscribers db') = [mk_subscriber 2 ''active'' True []] \<and>
          filter (\<lambda>r. s_id r = Some 3) (subscribers db') =
            [(mk_subscriber 3 ''active'' True [])\<lparr>total_emails_sent := 1\<rparr>]) \<and>
   (\<exists>r db'. send_campaign_try env_refuse2 db_five 7 = (Inr r, db') \<and>
             map_of r ''success'' = Some (PyBool True) \<and> map_of r ''sent_count'' = Some (PyInt 4) \<and>
             length (email_sent_records db' 7) = 4)"
proof -
  let ?c0 = "mk_campaign 7 ''draft'' True [] []"
  let ?s1 = "mk_subscriber 1 ''active'' True []"
  let ?s = "mk_subscriber 2 ''active'' True []"
  let ?s3 = "mk_subscriber 3 ''active'' True []"
  have f: "send_error env_refuse2 sending_five ?s = Some ''refused''"
    by (simp add: example_defs)
  then have fails: "render_error env_refuse2 sending_five ?s \<noteq> None \<or>
      send_error env_refuse2 sending_five ?s \<noteq> None \<or>
      create_error env_refuse2 (email_sent_activity sending_five ?s) \<noteq> None"
    by simp
  note inst = C6_recipient_failure_isolated [OF fails, of "(0, db_five)" "[?s1]" "[?s3]"]
  have d1: "delivered env_refuse2 sending_five ?s1" and d3: "delivered env_refuse2 sending_five ?s3"
    by (simp_all add: delivered_def example_defs)
  have sv: "subscriber_save_error env_refuse2 (?s3\<lparr>total_emails_sent := total_emails_sent ?s3 + 1\<rparr>) = None"
    by (simp add: example_defs)
  have dist: "distinct (map s_id ([?s1] @ ?s # [?s3]))" by (simp add: example_defs)
  have rows: "filter (\<lambda>r. s_id r = s_id ?s) (subscribers db_five) = [?s]"
    "filter (\<lambda>r. s_id r = s_id ?s3) (subscribers db_five) = [?s3]"
    by (simp_all add: db_five_def example_defs)
  have keys: "s_id ?s = Some 2" "s_id ?s3 = Some 3" "total_emails_sent ?s3 = 0"
    by (simp_all add: example_defs)
  have acts: "activities db_five = []" by (simp add: db_five_def example_defs)
  obtain n' db' where run: "send_loop env_refuse2 sending_five ([?s1] @ ?s # [?s3]) (0, db_five) = (n', db')"
    by (cases "send_loop env_refuse2 sending_five ([?s1] @ ?s # [?s3]) (0, db_five)")
  from inst run have eff:
    "n' = 0 + length (filter (delivered env_refuse2 sending_five) [?s1])
            + length (filter (delivered env_refuse2 sending_five) [?s3])"
    "activities db' = activities db_five
        @ map (email_sent_activity sending_five) (filter (delivered env_refuse2 sending_five) [?s1])
        @ map (email_sent_activity sending_five) (filter (delivered env_refuse2 sending_five) [?s3])"
    "distinct (map s_id ([?s1] @ ?s # [?s3])) \<longrightarrow>
       filter (\<lambda>r. s_id r = s_id ?s) (subscribers db') = filter (\<lambda>r. s_id r = s_id ?s) (subscribers db_five) \<and>
       (\<forall>t \<in> set ([?s1] @ [?s3]).
          delivered env_refuse2 sending_five t \<and>
          subscriber_save_error env_refuse2 (t\<lparr>total_emails_sent := total_emails_sent t + 1\<rparr>) = None \<longrightarrow>
            filter (\<lambda>r. s_id r = s_id t) (subscribers db') =
              map (\<lambda>r. t\<lparr>total_emails_sent := total_emails_sent t + 1\<rparr>)
                (filter (\<lambda>r. s_id r = s_id t) (subscribers db_five)))"
    by blast+
  from eff(1) d1 d3 have n': "n' = 2" by simp
  from eff(2) d1 d3 acts have a': "activities db' =
      [email_sent_activity sending_five ?s1, email_sent_activity sending_five ?s3]" by simp
  from eff(3) dist have r2: "filter (\<lambda>r. s_id r = s_id ?s) (subscribers db') = [?s]"
    and r3': "filter (\<lambda>r. s_id r = s_id ?s3) (subscribers db') =
              map (\<lambda>r. ?s3\<lparr>total_emails_sent := total_emails_sent ?s3 + 1\<rparr>)
                (filter (\<lambda>r. s_id r = s_id ?s3) (subscribers db_five))"
    using d3 sv rows(1) by auto
  from r3' rows(2) keys have r3: "filter (\<lambda>r. s_id r = Some 3) (subscribers db') =
            [?s3\<lparr>total_emails_sent := 1\<rparr>]" by simp
  from r2 keys have r2': "filter (\<lambda>r. s_id r = Some 2) (subscribers db') = [?s]" by simp
  have loop: "\<exists>db'. send_loop env_refuse2 sending_five [?s1, ?s, ?s3] (0, db_five) = (2, db') \<and>
          activities db' = [email_sent_activity sending_five ?s1, email_sent_activity sending_five ?s3] \<and>
          filter (\<lambda>r. s_id r = Some 2) (subscribers db') = [?s] \<and>
          filter (\<lambda>r. s_id r = Some 3) (subscribers db') = [?s3\<lparr>total_emails_sent := 1\<rparr>]"
    using run n' a' r2' r3 by auto
  have g: "get_campaign db_five 7 = Inr ?c0"
    by (simp add: get_campaign_def db_five_def example_defs)
  have st: "c_status ?c0 = ''draft''" by (simp add: example_defs)
  have a: "get_target_subscribers db_five ?c0 =
      [?s1, ?s, ?s3, mk_subscriber 4 ''active'' True [], mk_subscriber 5 ''active'' True []]"
    by (simp add: get_target_subscribers_def base_eligible_def db_five_def example_defs)
  have c: "sending_five = ?c0\<lparr>c_status := ''sending'',
              total_recipients := length (get_target_subscribers db_five ?c0)\<rparr>"
    by (simp add: a sending_five_def)
  have m: "?s \<in> set (get_target_subscribers db_five ?c0)" by (simp add: a)
  have ok: "\<forall>c'. campaign_save_error env_refuse2 c' = None" by (simp add: example_defs)
  have k: "length (filter (delivered env_refuse2 sending_five) (get_target_subscribers db_five ?c0)) = 4"
    unfolding a by (simp add: delivered_def example_defs)
  have e: "email_sent_records db_five 7 = []" by (simp add: email_sent_records_def db_five_def example_defs)
  from inst g st c m ok obtain r db'' where
    "send_campaign_try env_refuse2 db_five 7 = (Inr r, db'')" "map_of r ''success'' = Some (PyBool True)"
    "map_of r ''sent_count'' =
       Some (PyInt (length (filter (delivered env_refuse2 sending_five) (get_target_subscribers db_five ?c0))))"
    "length (email_sent_records db'' 7) = length (email_sent_records db_five 7) +
       length (filter (delivered env_refuse2 sending_five) (get_target_subscribers db_five ?c0))"
    by blast
  then have top: "\<exists>r db'. send_campaign_try env_refuse2 db_five 7 = (Inr r, db') \<and>
             map_of r ''success'' = Some (PyBool True) \<and> map_of r ''sent_count'' = Some (PyInt 4) \<and>
             length (email_sent_records db' 7) = 4"
    unfolding k e by auto
  have single: "send_loop env_refuse2 sending_five [?s] (0, db_five) = (0, db_five)"
    using inst by blast
  from f single loop top show ?thesis by blast
qed

text \<open>
  Claim C7. When \<^verbatim>\<open>send_campaign\<close> completes (its body returns), with \<open>n\<close> the size
  of the resolved audience and \<open>k\<close> the number of recipients whose delivery succeeds,
  the stored campaign has status \<^verbatim>\<open>'sent'\<close>, \<^verbatim>\<open>sent_at\<close> set to the current time,
  \<^verbatim>\<open>total_recipients = n\<close> and \<^verbatim>\<open>total_sent = k\<close>; the send adds exactly \<open>k\<close>
  \<^verbatim>\<open>email_sent\<close> activities for the campaign (so exactly \<open>k\<close> exist when none
  existed before), and \<^verbatim>\<open>total_sent \<le> total_recipients\<close>.
\<close>

theorem C7_completed_send:
  assumes "send_campaign_try env db cid = (Inr r, db')"
  shows "\<exists>c c' n k.
           get_campaign db cid = Inr c \<and> get_campaign db' cid = Inr c' \<and>
           n = length (get_target_subscribers db c) \<and>
           k = length (filter (delivered env (c\<lparr>c_status := ''sending'', total_recipients := n\<rparr>))
                         (get_target_subscribers db c)) \<and>
           c_status c' = ''sent'' \<and> sent_at c' = Some (now env) \<and>
           total_recipients c' = n \<and> total_sent c' = k \<and>
           length (email_sent_records db' cid) = length (email_sent_records db cid) + k \<and>
           (email_sent_records db cid = [] \<longrightarrow> length (email_sent_records db' cid) = k) \<and>
           total_sent c' \<le> total_recipients c' \<and>
           map_of r ''sent_count'' = Some (PyInt k)"
proof -
  from assms obtain c where c: "get_campaign db cid = Inr c"
    and d: "dispatch env db c = (Inr r, db')"
    by (rule send_campaign_try_Inr)
  note facts = dispatch_Inr [OF d c]
  show ?thesis
    apply (rule exI [of _ c])
    apply (rule exI [of _ "c\<lparr>c_status := ''sent'', total_recipients := length (get_target_subscribers db c),
        total_sent := length (filter (delivered env (c\<lparr>c_status := ''sending'',
           total_recipients := length (get_target_subscribers db c)\<rparr>)) (get_target_subscribers db c)),
        sent_at := Some (now env)\<rparr>"])
    using c facts by simp
qed

text \<open>
  C7 at five eligible recipients of which the transport refuses one: the campaign ends
  \<^verbatim>\<open>sent\<close> with 5 recipients, 4 sent, and 4 \<^verbatim>\<open>email_sent\<close> activities.
\<close>

theorem C7_witness:
  "\<exists>r db' c'. send_campaign_try env_refuse2 db_five 7 = (Inr r, db') \<and>
      get_campaign db' 7 = Inr c' \<and> c_status c' = ''sent'' \<and> sent_at c' = Some 1000 \<and>
      total_recipients c' = 5 \<and> total_sent c' = 4 \<and> length (email_sent_records db' 7) = 4"
proof -
  obtain r db' where run: "send_campaign_try env_refuse2 db_five 7 = (Inr r, db')"
    by (simp add: run_defs db_five_def example_defs)
  have g: "get_campaign db_five 7 = Inr (mk_campaign 7 ''draft'' True [] [])"
    by (simp add: get_campaign_def db_five_def example_defs)
  have a: "get_target_subscribers db_five (mk_campaign 7 ''draft'' True [] []) =
      [mk_subscriber 1 ''active'' True [], mk_subscriber 2 ''active'' True [],
                    mk_subscriber 3 ''active'' True [], mk_subscriber 4 ''active'' True [],
                    mk_subscriber 5 ''active'' True []]"
    by (simp add: run_defs db_five_def example_defs)
  have e: "email_sent_records db_five 7 = []"
    by (simp add: run_defs db_five_def example_defs)
  from C7_completed_send [OF run] obtain c c' n k where
    "get_campaign db_five 7 = Inr c" "get_campaign db' 7 = Inr c'"
    "n = length (get_target_subscribers db_five c)"
    "k = length (filter (delivered env_refuse2 (c\<lparr>c_status := ''sending'', total_recipients := n\<rparr>))
                         (get_target_subscribers db_five c))"
    "c_status c' = ''sent''" "sent_at c' = Some (now env_refuse2)"
    "total_recipients c' = n" "total_sent c' = k"
    "length (email_sent_records db' 7) = length (email_sent_records db_five 7) + k"
    by blast
  moreover from this g a have "n = 5" by simp
  moreover from calculation g a have "k = 4"
    by (simp add: delivered_def example_defs)
  ultimately show ?thesis using run e by (simp add: example_defs)
qed

subsection \<open>Derived metrics\<close>

text \<open>
  Claim C9. With counters in the range of a \<^verbatim>\<open>PositiveIntegerField\<close>, each rate
  method returns 0 when its denominator is 0, and otherwise the float of the decimal with
  one fractional digit nearest to the exact percentage (100 times the counter ratio):
  \<^verbatim>\<open>opened / sent\<close>, \<^verbatim>\<open>clicked / sent\<close>, \<^verbatim>\<open>unsubscribed / sent\<close> and
  \<^verbatim>\<open>delivered / recipients\<close>. When the exact percentage lies halfway between two
  such decimals, the result is the float of one of the two (lemma
  \<open>percentages_half_way\<close> has two such cases). With \<^verbatim>\<open>sent = 100\<close> and
  \<^verbatim>\<open>opened = 40\<close> the open rate is exactly 40.0.
\<close>

theorem C9_rates:
  assumes "total_opened c < 2 ^ 31" and "total_clicked c < 2 ^ 31"
    and "total_unsubscribed c < 2 ^ 31" and "total_delivered c < 2 ^ 31"
    and "total_sent c < 2 ^ 31" and "total_recipients c < 2 ^ 31"
  shows "(total_sent c = 0 \<longrightarrow>
            get_open_rate c = 0 \<and> get_click_rate c = 0 \<and> get_unsubscribe_rate c = 0) \<and>
         (total_recipients c = 0 \<longrightarrow> get_delivery_rate c = 0) \<and>
         (0 < total_sent c \<longrightarrow>
            rounded_to_one_decimal (get_open_rate c)
              (100 * of_nat (total_opened c) / of_nat (total_sent c)) \<and>
            rounded_to_one_decimal (get_click_rate c)
              (100 * of_nat (total_clicked c) / of_nat (total_sent c)) \<and>
            rounded_to_one_decimal (get_unsubscribe_rate c)
              (100 * of_nat (total_unsubscribed c) / of_nat (total_sent c))) \<and>
         (0 < total_recipients c \<longrightarrow>
            rounded_to_one_decimal (get_delivery_rate c)
              (100 * of_nat (total_delivered c) / of_nat (total_recipients c))) \<and>
         (total_sent c = 100 \<and> total_opened c = 40 \<longrightarrow> get_open_rate c = 40)"
proof (intro conjI impI)
  assume "total_sent c = 0"
  then show "get_open_rate c = 0" "get_click_rate c = 0" "get_unsubscribe_rate c = 0"
    by (simp_all add: get_open_rate_def get_click_rate_def get_unsubscribe_rate_def)
next
  assume "total_recipients c = 0"
  then show "get_delivery_rate c = 0" by (simp add: get_delivery_rate_def)
next
  assume s: "0 < total_sent c"
  show "rounded_to_one_decimal (get_open_rate c)
              (100 * of_nat (total_opened c) / of_nat (total_sent c))"
    using percentage_rounded [OF s assms(1)] s by (simp add: get_open_rate_def)
  show "rounded_to_one_decimal (get_click_rate c)
              (100 * of_nat (total_clicked c) / of_nat (total_sent c))"
    using percentage_rounded [OF s assms(2)] s by (simp add: get_click_rate_def)
  show "rounded_to_one_decimal (get_unsubscribe_rate c)
              (100 * of_nat (total_unsubscribed c) / of_nat (total_sent c))"
    using percentage_rounded [OF s assms(3)] s by (simp add: get_unsubscribe_rate_def)
next
  assume r: "0 < total_recipients c"
  show "rounded_to_one_decimal (get_delivery_rate c)
              (100 * of_nat (total_delivered c) / of_nat (total_recipients c))"
    using percentage_rounded [OF r assms(4)] r by (simp add: get_delivery_rate_def)
next
  assume "total_sent c = 100 \<and> total_opened c = 40"
  then show "get_open_rate c = 40"
    using percentage_40_of_100 by (simp add: get_open_rate_def)
qed

text \<open>
  C9 at a campaign with 120 recipients, 100 sent, 90 delivered, 40 opened and 7 clicked,
  and at a campaign whose counters are all 0.
\<close>

theorem C9_witness:
  "get_open_rate (with_counters 120 100 90 40 7 0) = 40 \<and>
   rounded_to_one_decimal (get_click_rate (with_counters 120 100 90 40 7 0)) 7 \<and>
   rounded_to_one_decimal (get_delivery_rate (with_counters 120 100 90 40 7 0)) 75 \<and>
   get_unsubscribe_rate (with_counters 0 0 0 0 0 0) = 0 \<and>
   get_delivery_rate (with_counters 0 0 0 0 0 0) = 0"
  using C9_rates [of "with_counters 120 100 90 40 7 0"] C9_rates [of "with_counters 0 0 0 0 0 0"]
  by (simp add: with_counters_def mk_campaign_def)

subsection \<open>Test sends and the public interface\<close>

text \<open>
  Claim C3 at a concrete input: campaign 7 (already sent) and the address
  \<^verbatim>\<open>qa@example.com\<close>. \<^verbatim>\<open>send_test_email\<close> goes through
  \<^verbatim>\<open>_send_email_to_subscriber\<close>, which calls \<^verbatim>\<open>NewsletterActivity.objects.create\<close>
  for the unsaved test subscriber. Where that write goes through, the test send reports
  success and the ledger holds a new \<^verbatim>\<open>email_sent\<close> activity whose subscriber key is
  \<open>None\<close>; where the database layer refuses the unsaved subscriber, the mail has been
  sent and the test send reports failure. In no environment does it both succeed and
  leave the ledger alone (lemma \<open>send_test_email_success_logs\<close>). The campaign rows
  and the subscriber rows are never changed, and the campaign's status is not consulted
  (lemma \<open>send_test_email_effect\<close>).
\<close>

theorem C3_test_send_logs_or_fails:
  "send_test_email env_ok db_sent 7 ''qa@example.com'' =
     ([(''success'', PyBool True), (''message'', PyStr ''Test email sent to qa@example.com'')],
      db_sent\<lparr>activities :=
        [\<lparr>a_subscriber = None, a_campaign = Some 7, activity_type = ''email_sent'',
          description = ''Email sent for campaign: weekly'', email_subject = ''News''\<rparr>]\<rparr>) \<and>
   send_test_email env_unsaved_rejected db_sent 7 ''qa@example.com'' =
     ([(''success'', PyBool False),
       (''message'', PyStr ''save() prohibited: unsaved related object subscriber'')], db_sent)"
  by (simp add: send_test_email_def send_test_email_try_def get_campaign_def send_email_to_subscriber_def
      email_sent_activity_def test_subscriber_def db_sent_def env_unsaved_rejected_def example_defs)

text \<open>
  Claim C10. \<^verbatim>\<open>send_campaign\<close> and \<^verbatim>\<open>send_test_email\<close> return a dictionary for
  every environment, database, campaign key and address: it has a boolean under
  \<^verbatim>\<open>'success'\<close> and a string under \<^verbatim>\<open>'message'\<close>, and \<^verbatim>\<open>'success'\<close> is
  \<^verbatim>\<open>False\<close> exactly when an exception left the body of the \<^verbatim>\<open>try\<close>. Case by case:
  a key that is in no campaign row gives \<^verbatim>\<open>success = False\<close> and an unchanged database
  (with the message "Campaign not found" for a key in the range of the key column); a
  campaign that is not a draft, and a draft with an empty audience, give
  \<^verbatim>\<open>success = False\<close> with the \<^verbatim>\<open>ValueError\<close>'s message and an unchanged database; an
  error of the first or of the final \<^verbatim>\<open>campaign.save()\<close> gives \<^verbatim>\<open>success = False\<close>
  with the error's message; otherwise the send returns \<^verbatim>\<open>success = True\<close> with its
  counts. A test send whose rendering, transport or activity write raises gives
  \<^verbatim>\<open>success = False\<close> with that error's message and an unchanged database, and
  \<^verbatim>\<open>success = True\<close> otherwise.
\<close>

theorem C10_total_interface:
  "(\<exists>ok m. map_of (fst (send_campaign env db cid)) ''success'' = Some (PyBool ok) \<and>
            map_of (fst (send_campaign env db cid)) ''message'' = Some (PyStr m) \<and>
            ok = (\<not> isl (fst (send_campaign_try env db cid)))) \<and>
   (\<exists>ok m. map_of (fst (send_test_email env db cid addr)) ''success'' = Some (PyBool ok) \<and>
            map_of (fst (send_test_email env db cid addr)) ''message'' = Some (PyStr m) \<and>
            ok = (\<not> isl (fst (send_test_email_try env db cid addr)))) \<and>
   ((\<forall>c \<in> set (campaigns db). c_id c \<noteq> cid) \<longrightarrow>
      map_of (fst (send_campaign env db cid)) ''success'' = Some (PyBool False) \<and>
      snd (send_campaign env db cid) = db \<and>
      map_of (fst (send_test_email env db cid addr)) ''success'' = Some (PyBool False) \<and>
      snd (send_test_email env db cid addr) = db \<and>
      (cid < 2 ^ 63 \<longrightarrow>
         fst (send_campaign env db cid) =
           [(''success'', PyBool False), (''message'', PyStr ''Campaign not found'')] \<and>
         fst (send_test_email env db cid addr) =
           [(''success'', PyBool False), (''message'', PyStr ''Campaign not found'')])) \<and>
   (\<forall>c. get_campaign db cid = Inr c \<and> c_status c \<noteq> ''draft'' \<longrightarrow>
      send_campaign env db cid =
        ([(''success'', PyBool False),
          (''message'', PyStr (''Campaign '' @ name c @ '' is not in draft status''))], db)) \<and>
   (\<forall>c. get_campaign db cid = Inr c \<and> c_status c = ''draft'' \<and> get_target_subscribers db c = [] \<longrightarrow>
      send_campaign env db cid =
        ([(''success'', PyBool False),
          (''message'', PyStr ''No subscribers found for this campaign'')], db)) \<and>
   (\<forall>c c1 k c2 msg.
      get_campaign db cid = Inr c \<and> c_status c = ''draft'' \<and> get_target_subscribers db c \<noteq> [] \<and>
      c1 = c\<lparr>c_status := ''sending'', total_recipients := length (get_target_subscribers db c)\<rparr> \<and>
      k = length (filter (delivered env c1) (get_target_subscribers db c)) \<and>
      c2 = c1\<lparr>c_status := ''sent'', total_sent := k, sent_at := Some (now env)\<rparr> \<longrightarrow>
        (campaign_save_error env c1 = Some msg \<longrightarrow>
           send_campaign env db cid =
             ([(''success'', PyBool False), (''message'', PyStr msg)], db)) \<and>
        (campaign_save_error env c1 = None \<and> campaign_save_error env c2 = Some msg \<longrightarrow>
           fst (send_campaign env db cid) =
             [(''success'', PyBool False), (''message'', PyStr msg)]) \<and>
        (campaign_save_error env c1 = None \<and> campaign_save_error env c2 = None \<longrightarrow>
           fst (send_campaign env db cid) =
             [(''success'', PyBool True),
              (''message'', PyStr (''Campaign sent to '' @ str_nat k @ '' subscribers'')),
              (''sent_count'', PyInt k),
              (''total_recipients'', PyInt (length (get_target_subscribers db c)))])) \<and>
   (\<forall>c msg.
      get_campaign db cid = Inr c \<longrightarrow>
        (render_error env c (test_subscriber addr) = Some msg \<or>
         render_error env c (test_subscriber addr) = None \<and>
           send_error env c (test_subscriber addr) = Some msg \<or>
         render_error env c (test_subscriber addr) = None \<and>
           send_error env c (test_subscriber addr) = None \<and>
           create_error env (email_sent_activity c (test_subscriber addr)) = Some msg \<longrightarrow>
           send_test_email env db cid addr =
             ([(''success'', PyBool False), (''message'', PyStr msg)], db)) \<and>
        (render_error env c (test_subscriber addr) = None \<and>
         send_error env c (test_subscriber addr) = None \<and>
         create_error env (email_sent_activity c (test_subscriber addr)) = None \<longrightarrow>
           fst (send_test_email env db cid addr) =
             [(''success'', PyBool True), (''message'', PyStr (''Test email sent to '' @ addr))]))"
proof -
  have total_campaign: "\<exists>ok m. map_of (fst (send_campaign env db cid)) ''success'' = Some (PyBool ok) \<and>
            map_of (fst (send_campaign env db cid)) ''message'' = Some (PyStr m) \<and>
            ok = (\<not> isl (fst (send_campaign_try env db cid)))"
  proof -
    obtain x db' where run: "send_campaign_try env db cid = (x, db')"
      by (cases "send_campaign_try env db cid")
    show ?thesis
    proof (cases x)
      case (Inl e)
      with run failure_result_shape [of e] show ?thesis
        by (auto simp: send_campaign_def)
    next
      case (Inr r)
      with run obtain c where c: "get_campaign db cid = Inr c" and d: "dispatch env db c = (Inr r, db')"
        by (auto elim: send_campaign_try_Inr)
      have 1: "fst (send_campaign env db cid) = r" and 2: "\<not> isl (fst (send_campaign_try env db cid))"
        using run Inr by (simp_all add: send_campaign_def)
      have "map_of r ''success'' = Some (PyBool True)" and "\<exists>m. map_of r ''message'' = Some (PyStr m)"
        unfolding dispatch_Inr(3) [OF d c] by simp_all
      with 1 2 show ?thesis by auto
    qed
  qed
  have total_test: "\<exists>ok m. map_of (fst (send_test_email env db cid addr)) ''success'' = Some (PyBool ok) \<and>
            map_of (fst (send_test_email env db cid addr)) ''message'' = Some (PyStr m) \<and>
            ok = (\<not> isl (fst (send_test_email_try env db cid addr)))"
  proof -
    obtain x db' where run: "send_test_email_try env db cid addr = (x, db')"
      by (cases "send_test_email_try env db cid addr")
    show ?thesis
    proof (cases x)
      case (Inl e)
      with run failure_result_shape [of e] show ?thesis
        by (auto simp: send_test_email_def)
    next
      case (Inr r)
      with run have "r = [(''success'', PyBool True), (''message'', PyStr (''Test email sent to '' @ addr))]"
        by (auto simp: send_test_email_try_def split: sum.splits)
      with run Inr show ?thesis
        by (auto simp: send_test_email_def)
    qed
  qed
  have missing:
      "map_of (fst (send_campaign env db cid)) ''success'' = Some (PyBool False) \<and>
       snd (send_campaign env db cid) = db \<and>
       map_of (fst (send_test_email env db cid addr)) ''success'' = Some (PyBool False) \<and>
       snd (send_test_email env db cid addr) = db \<and>
       (cid < 2 ^ 63 \<longrightarrow>
         fst (send_campaign env db cid) =
           [(''success'', PyBool False), (''message'', PyStr ''Campaign not found'')] \<and>
         fst (send_test_email env db cid addr) =
           [(''success'', PyBool False), (''message'', PyStr ''Campaign not found'')])"
    if "\<forall>c \<in> set (campaigns db). c_id c \<noteq> cid"
    using get_campaign_missing [OF that]
    by (simp add: send_campaign_def send_campaign_try_not_found send_test_email_def
        send_test_email_try_def)
  have not_draft: "send_campaign env db cid =
        ([(''success'', PyBool False),
          (''message'', PyStr (''Campaign '' @ name c @ '' is not in draft status''))], db)"
    if "get_campaign db cid = Inr c" "c_status c \<noteq> ''draft''" for c
    using send_campaign_try_not_draft [OF that, of env]
    by (simp add: send_campaign_def not_in_draft_status_def)
  have empty: "send_campaign env db cid =
        ([(''success'', PyBool False),
          (''message'', PyStr ''No subscribers found for this campaign'')], db)"
    if "get_campaign db cid = Inr c" "c_status c = ''draft''" "get_target_subscribers db c = []" for c
    using send_campaign_try_empty [OF that, of env]
    by (simp add: send_campaign_def no_subscribers_found_def)
  have fst_send: "fst (send_campaign env db cid) =
        (case fst (send_campaign_try env db cid) of Inl e \<Rightarrow> failure_result e | Inr r \<Rightarrow> r)"
    by (cases "send_campaign_try env db cid") (auto simp: send_campaign_def split: sum.splits)
  have send: "(campaign_save_error env c1 = Some msg \<longrightarrow>
           send_campaign env db cid =
             ([(''success'', PyBool False), (''message'', PyStr msg)], db)) \<and>
        (campaign_save_error env c1 = None \<and> campaign_save_error env c2 = Some msg \<longrightarrow>
           fst (send_campaign env db cid) =
             [(''success'', PyBool False), (''message'', PyStr msg)]) \<and>
        (campaign_save_error env c1 = None \<and> campaign_save_error env c2 = None \<longrightarrow>
           fst (send_campaign env db cid) =
             [(''success'', PyBool True),
              (''message'', PyStr (''Campaign sent to '' @ str_nat k @ '' subscribers'')),
              (''sent_count'', PyInt k),
              (''total_recipients'', PyInt (length (get_target_subscribers db c)))])"
    if g: "get_campaign db cid = Inr c" and dr: "c_status c = ''draft''"
      and ne: "get_target_subscribers db c \<noteq> []"
      and c1: "c1 = c\<lparr>c_status := ''sending'', total_recipients := length (get_target_subscribers db c)\<rparr>"
      and k: "k = length (filter (delivered env c1) (get_target_subscribers db c))"
      and c2: "c2 = c1\<lparr>c_status := ''sent'', total_sent := k, sent_at := Some (now env)\<rparr>"
    for c c1 k c2 msg
  proof -
    note eq = send_campaign_try_draft [OF g dr ne, of env]
    have a: "send_campaign env db cid = ([(''success'', PyBool False), (''message'', PyStr msg)], db)"
      if "campaign_save_error env c1 = Some msg"
      using dispatch_first_save_fails [OF that [unfolded c1]]
      by (simp add: send_campaign_def eq)
    have b: "fst (send_campaign env db cid) = [(''success'', PyBool False), (''message'', PyStr msg)]"
      if "campaign_save_error env c1 = None" "campaign_save_error env c2 = Some msg"
      using dispatch_after_first_save(1) [OF c1 k c2 that]
      by (simp add: fst_send eq)
    have c: "fst (send_campaign env db cid) =
             [(''success'', PyBool True),
              (''message'', PyStr (''Campaign sent to '' @ str_nat k @ '' subscribers'')),
              (''sent_count'', PyInt k),
              (''total_recipients'', PyInt (length (get_target_subscribers db c)))]"
      if "campaign_save_error env c1 = None" "campaign_save_error env c2 = None"
      using dispatch_after_first_save(2) [OF c1 k c2 that]
      by (simp add: fst_send eq)
    from a b c show ?thesis by blast
  qed
  have test: "(render_error env c (test_subscriber addr) = Some msg \<or>
         render_error env c (test_subscriber addr) = None \<and>
           send_error env c (test_subscriber addr) = Some msg \<or>
         render_error env c (test_subscriber addr) = None \<and>
           send_error env c (test_subscriber addr) = None \<and>
           create_error env (email_sent_activity c (test_subscriber addr)) = Some msg \<longrightarrow>
           send_test_email env db cid addr =
             ([(''success'', PyBool False), (''message'', PyStr msg)], db)) \<and>
        (render_error env c (test_subscriber addr) = None \<and>
         send_error env c (test_subscriber addr) = None \<and>
         create_error env (email_sent_activity c (test_subscriber addr)) = None \<longrightarrow>
           fst (send_test_email env db cid addr) =
             [(''success'', PyBool True), (''message'', PyStr (''Test email sent to '' @ addr))])"
    if "get_campaign db cid = Inr c" for c msg
    using that
    by (auto simp: send_test_email_def send_test_email_try_def send_email_to_subscriber_def)
  from total_campaign total_test missing not_draft empty send test show ?thesis
    by (intro conjI allI impI) blast+
qed

text \<open>
  C10 at a missing key, at the scheduled campaign, at a send whose final
  \<^verbatim>\<open>campaign.save()\<close> fails, and at a test send whose activity write is refused.
\<close>

theorem C10_witness:
  "fst (send_campaign env_ok db_five 9) =
     [(''success'', PyBool False), (''message'', PyStr ''Campaign not found'')] \<and>
   fst (send_test_email env_ok db_five 9 ''qa@example.com'') =
     [(''success'', PyBool False), (''message'', PyStr ''Campaign not found'')] \<and>
   fst (send_campaign env_ok db_scheduled 7) =
     [(''success'', PyBool False), (''message'', PyStr ''Campaign weekly is not in draft status'')] \<and>
   fst (send_campaign env_save_fails db_five 7) =
     [(''success'', PyBool False), (''message'', PyStr ''database is locked'')] \<and>
   fst (send_test_email env_unsaved_rejected db_sent 7 ''qa@example.com'') =
     [(''success'', PyBool False),
      (''message'', PyStr ''save() prohibited: unsaved related object subscriber'')]"
proof -
  have m: "\<forall>c \<in> set (campaigns db_five). c_id c \<noteq> 9" and r: "(9::nat) < 2 ^ 63"
    by (simp_all add: db_five_def example_defs)
  from C10_total_interface [of env_ok db_five 9 "''qa@example.com''"] m r
  have 1: "fst (send_campaign env_ok db_five 9) =
     [(''success'', PyBool False), (''message'', PyStr ''Campaign not found'')]"
    and 2: "fst (send_test_email env_ok db_five 9 ''qa@example.com'') =
     [(''success'', PyBool False), (''message'', PyStr ''Campaign not found'')]"
    by blast+
  have g: "get_campaign db_scheduled 7 = Inr (mk_campaign 7 ''scheduled'' True [] [])"
    by (simp add: db_scheduled_def get_campaign_def example_defs)
  have s: "c_status (mk_campaign 7 ''scheduled'' True [] []) \<noteq> ''draft''"
    and nm: "name (mk_campaign 7 ''scheduled'' True [] []) = ''weekly''"
    by (simp_all add: example_defs)
  from C10_total_interface [of env_ok db_scheduled 7 "''qa@example.com''"] g s
  have "send_campaign env_ok db_scheduled 7 =
        ([(''success'', PyBool False),
          (''message'', PyStr (''Campaign '' @ name (mk_campaign 7 ''scheduled'' True [] []) @ '' is not in draft status''))],
         db_scheduled)"
    by blast
  then have 3: "fst (send_campaign env_ok db_scheduled 7) =
     [(''success'', PyBool False), (''message'', PyStr ''Campaign weekly is not in draft status'')]"
    by (simp add: nm)
  let ?c0 = "mk_campaign 7 ''draft'' True [] []"
  let ?k = "length (filter (delivered env_save_fails sending_five) (get_target_subscribers db_five ?c0))"
  let ?c2 = "sending_five\<lparr>c_status := ''sent'', total_sent := ?k, sent_at := Some (now env_save_fails)\<rparr>"
  have g5: "get_campaign db_five 7 = Inr ?c0"
    by (simp add: get_campaign_def db_five_def example_defs)
  have st: "c_status ?c0 = ''draft''" by (simp add: example_defs)
  have a: "get_target_subscribers db_five ?c0 =
      [mk_subscriber 1 ''active'' True [], mk_subscriber 2 ''active'' True [],
       mk_subscriber 3 ''active'' True [], mk_subscriber 4 ''active'' True [],
       mk_subscriber 5 ''active'' True []]"
    by (simp add: get_target_subscribers_def base_eligible_def db_five_def example_defs)
  have ne: "get_target_subscribers db_five ?c0 \<noteq> []" by (simp add: a)
  have c1: "sending_five = ?c0\<lparr>c_status := ''sending'',
              total_recipients := length (get_target_subscribers db_five ?c0)\<rparr>"
    by (simp add: a sending_five_def)
  have e1: "campaign_save_error env_save_fails sending_five = None"
    by (simp add: env_save_fails_def sending_five_def example_defs)
  have e2: "campaign_save_error env_save_fails ?c2 = Some ''database is locked''"
    by (simp add: env_save_fails_def example_defs)
  from C10_total_interface [of env_save_fails db_five 7 "''qa@example.com''"] g5 st ne c1 e1 e2
  have 4: "fst (send_campaign env_save_fails db_five 7) =
     [(''success'', PyBool False), (''message'', PyStr ''database is locked'')]"
    by blast
  have gs: "get_campaign db_sent 7 = Inr (mk_campaign 7 ''sent'' True [] [])"
    by (simp add: db_sent_def get_campaign_def example_defs)
  have t: "render_error env_unsaved_rejected (mk_campaign 7 ''sent'' True [] []) (test_subscriber ''qa@example.com'') = None"
    "send_error env_unsaved_rejected (mk_campaign 7 ''sent'' True [] []) (test_subscriber ''qa@example.com'') = None"
    "create_error env_unsaved_rejected
       (email_sent_activity (mk_campaign 7 ''sent'' True [] []) (test_subscriber ''qa@example.com'')) =
       Some ''save() prohibited: unsaved related object subscriber''"
    by (simp_all add: env_unsaved_rejected_def email_sent_activity_def test_subscriber_def example_defs)
  from C10_total_interface [of env_unsaved_rejected db_sent 7 "''qa@example.com''"] gs t
  have "send_test_email env_unsaved_rejected db_sent 7 ''qa@example.com'' =
     ([(''success'', PyBool False),
      (''message'', PyStr ''save() prohibited: unsaved related object subscriber'')], db_sent)"
    by blast
  then have 5: "fst (send_test_email env_unsaved_rejected db_sent 7 ''qa@example.com'') =
     [(''success'', PyBool False),
      (''message'', PyStr ''save() prohibited: unsaved related object subscriber'')]"
    by simp
  from 1 2 3 4 5 show ?thesis by blast
qed

end
